theory Spec2Isabelle
  imports Complex_Main "HOL-Library.Sublist"
begin

section \<open>Values of the data source\<close>

text \<open>
  The replay launcher \<^verbatim>\<open>main.py\<close> works on objects of its collaborators: a loaded
  session, its laps, a lap's telemetry table. Each object is modelled by what the
  launcher reads from it; a method that may fail carries its outcome as a sum, with
  \<open>Inl\<close> for the exception raised.
\<close>

text \<open>
  Exceptions (instances of Python's \<^verbatim>\<open>Exception\<close>). The launcher tells
  \<^verbatim>\<open>TypeError\<close> and \<^verbatim>\<open>ValueError\<close> from the rest; \<open>Error\<close> is any other
  exception of a collaborator, with its message.
\<close>

datatype exn =
  TypeError | ValueError | OverflowError | KeyError string | AttributeError | Error string

text \<open>A Python float: a finite number, an infinity or nan.\<close>

datatype pyfloat = Finite real | PosInf | NegInf | NaN

text \<open>
  A sample of a telemetry channel, by what \<^verbatim>\<open>float(value)\<close> makes of it:
  \<^item> \<open>PyNum x\<close>: a number (an int or a float in the range of a double, a numpy
    scalar, a string spelling a number) that \<^verbatim>\<open>float\<close> converts to \<open>x\<close>;
  \<^item> \<open>PyStr s\<close>: a string that spells no number, \<^verbatim>\<open>float\<close> raises ValueError;
  \<^item> \<open>PyNone\<close>: None, or another object \<^verbatim>\<open>float\<close> rejects with TypeError;
  \<^item> \<open>PyBigInt n\<close>: an int beyond the range of a double, such as \<open>10 ^ 400\<close>:
    \<^verbatim>\<open>float\<close> raises OverflowError.
\<close>

datatype pyval = PyNum pyfloat | PyStr string | PyNone | PyBigInt int

fun py_float :: "pyval \<Rightarrow> exn + pyfloat" where
  "py_float (PyNum x) = Inr x"
| "py_float (PyStr s) = Inl ValueError"
| "py_float PyNone = Inl TypeError"
| "py_float (PyBigInt n) = Inl OverflowError"

text \<open>The comparison \<^verbatim>\<open>x >= c\<close> of a float with a number; nan compares false.\<close>

fun py_ge :: "pyfloat \<Rightarrow> real \<Rightarrow> bool" where
  "py_ge (Finite x) c = (c \<le> x)"
| "py_ge PosInf c = True"
| "py_ge NegInf c = False"
| "py_ge NaN c = False"

text \<open>
  A column of a telemetry table: the outcome of \<^verbatim>\<open>.to_numpy()\<close> (the samples in
  order) and of \<^verbatim>\<open>.max()\<close>. A telemetry table maps the names of the channels it has
  to their columns: \<^verbatim>\<open>"DRS" in t\<close> is \<open>t ''DRS'' \<noteq> None\<close>.
\<close>

record column =
  to_numpy :: "exn + pyval list"
  max_value :: "exn + pyval"

type_synonym telemetry = "string \<rightharpoonup> column"

text \<open>\<^verbatim>\<open>t[name]\<close>: indexing a table by a channel it lacks raises KeyError.\<close>

definition getitem :: "telemetry \<Rightarrow> string \<Rightarrow> exn + column" where
  "getitem t name = (case t name of None \<Rightarrow> Inl (KeyError name) | Some col \<Rightarrow> Inr col)"

text \<open>
  A lap record: the outcome of \<^verbatim>\<open>lap['Driver']\<close>, which raises on a record without
  that column, and the outcome of \<^verbatim>\<open>get_telemetry()\<close>, which yields a table, or None,
  or raises. A lap collection: its \<^verbatim>\<open>len\<close> and the outcome of \<^verbatim>\<open>pick_fastest()\<close>,
  which yields a lap, or None when no lap qualifies, or raises.
\<close>

record lap =
  Driver :: "exn + string"
  get_telemetry :: "exn + telemetry option"

record lap_table =
  len :: nat
  pick_fastest :: "exn + lap option"

text \<open>
  The event descriptor of a session, a keyed row: a key may be missing. \<open>EventDate\<close>
  is None when the key is missing or its value is falsy; otherwise it holds the outcome
  of \<^verbatim>\<open>strftime('%B %d, %Y')\<close> on the value: the rendered date, or the exception raised
  by a value that is no date.
\<close>

record event_info =
  EventName :: "string option"
  RoundNumber :: "int option"
  Location :: "string option"
  Country :: "string option"
  EventDate :: "(exn + string) option"

record session =
  event :: event_info
  laps :: lap_table
  drivers :: "string list"

text \<open>
  The datasets the assemblers return are passed on unread; they are object references.
\<close>

type_synonym obj = nat

record race_telemetry =
  frames :: obj
  track_statuses :: obj
  driver_colors :: obj
  total_laps :: int

section \<open>What a run does\<close>

text \<open>
  The display record built for the replay banner, and the keyword arguments of the two
  replay windows.
\<close>

record session_info =
  event_name :: string
  circuit_name :: string
  country :: string
  info_year :: "int option"
  info_round :: "int option"
  date :: string
  info_total_laps :: int
  circuit_length_m :: "pyfloat option"

record qualifying_replay_args =
  q_session :: session
  q_data :: obj
  q_title :: string
  q_ready_file :: "string option"

record arcade_replay_args =
  arg_frames :: obj
  arg_track_statuses :: obj
  arg_example_lap :: "telemetry option"
  arg_drivers :: "string list"
  arg_playback_speed :: real
  arg_driver_colors :: obj
  arg_title :: string
  arg_total_laps :: int
  arg_circuit_rotation :: obj
  arg_visible_hud :: bool
  arg_ready_file :: "string option"
  arg_session_info :: session_info
  arg_session :: session
  arg_enable_telemetry :: bool

text \<open>
  The lines the launcher prints, one constructor for each message of the source with the
  values it interpolates. The clock is not modelled: the time stamp that starts a line
  and the elapsed seconds that end a \<^verbatim>\<open>_log_step\<close> line are left out.
\<close>

datatype log_msg =
    Loading "int option" "int option" string
      \<comment> \<open>Loading F1 {year} Round {round_number} Session '{session_type}'\<close>
  | CacheInitialized
      \<comment> \<open>FastF1 cache initialized\<close>
  | LoadedSession string int string
      \<comment> \<open>Loaded session: {EventName} - {RoundNumber} - {session_type}\<close>
  | PreparedQualifying
      \<comment> \<open>Prepared qualifying telemetry dataset\<close>
  | PreparedRace
      \<comment> \<open>Prepared race telemetry dataset\<close>
  | NoValidLaps
      \<comment> \<open>Error: No valid laps found in session\<close>
  | UsingRaceLap string
      \<comment> \<open>Using fastest race lap from driver {Driver} for track layout\<close>
  | RaceLapLacksDRS
      \<comment> \<open>Race lap lacks clear DRS activation. Attempting qualifying session for DRS zones...\<close>
  | LoadedQualifyingSession
      \<comment> \<open>Loaded qualifying session for DRS zone extraction\<close>
  | UsingQualifyingLap string
      \<comment> \<open>Using qualifying lap from driver {Driver} for DRS zones\<close>
  | CouldNotLoadQualifying exn
      \<comment> \<open>Could not load qualifying session: {e}\<close>
  | TrackLayoutPrepared
      \<comment> \<open>Track layout telemetry prepared\<close>
  | LaunchingInsights
      \<comment> \<open>Launching insights menu...\<close>
  | SessionReady
      \<comment> \<open>Session ready for replay window\<close>

text \<open>
  What a run does, in order: the lines it prints, the calls it makes to the functions it
  imports, and the assignment \<^verbatim>\<open>example_lap = quali_telemetry\<close> inside its \<^verbatim>\<open>try\<close>
  statement, which the handler of that statement does not undo.
\<close>

datatype effect =
    Log log_msg
  | AssignExampleLap "telemetry option"
  | EnableCache
  | LoadSession "int option" "int option" string
  | GetQualiTelemetry session string
  | GetRaceTelemetry session string
  | GetCircuitRotation session
  | LaunchInsightsMenu
  | RunQualifyingReplay qualifying_replay_args
  | RunArcadeReplay arcade_replay_args

text \<open>The imported functions: for each, the outcome of a call with given arguments.\<close>

record world =
  enable_cache :: "exn + unit"
  load_session :: "int option \<Rightarrow> int option \<Rightarrow> string \<Rightarrow> exn + session option"
  get_quali_telemetry :: "session \<Rightarrow> string \<Rightarrow> exn + obj"
  get_race_telemetry :: "session \<Rightarrow> string \<Rightarrow> exn + race_telemetry"
  get_circuit_rotation :: "session \<Rightarrow> exn + obj"
  launch_insights_menu :: "exn + unit"
  run_qualifying_replay :: "qualifying_replay_args \<Rightarrow> exn + unit"
  run_arcade_replay :: "arcade_replay_args \<Rightarrow> exn + unit"

text \<open>
  A computation yields the effects it had, in order, and its outcome: a value, or the
  exception that ended it.
\<close>

type_synonym 'a run = "effect list \<times> (exn + 'a)"

definition ret :: "'a \<Rightarrow> 'a run" where
  "ret x = ([], Inr x)"

definition lift :: "exn + 'a \<Rightarrow> 'a run" where
  "lift r = ([], r)"

definition call :: "effect \<Rightarrow> exn + 'a \<Rightarrow> 'a run" where
  "call c r = ([c], r)"

definition and_then :: "'a run \<Rightarrow> ('a \<Rightarrow> 'b run) \<Rightarrow> 'b run" where
  "and_then m f =
     (case m of
        (t1, Inl e) \<Rightarrow> (t1, Inl e)
      | (t1, Inr x) \<Rightarrow> (case f x of (t2, r) \<Rightarrow> (t1 @ t2, r)))"

text \<open>\<^verbatim>\<open>try: m except Exception as e: h e\<close>\<close>

definition try_except :: "'a run \<Rightarrow> (exn \<Rightarrow> 'a run) \<Rightarrow> 'a run" where
  "try_except m h =
     (case m of
        (t1, Inl e) \<Rightarrow> (case h e of (t2, r) \<Rightarrow> (t1 @ t2, r))
      | (t1, Inr x) \<Rightarrow> (t1, Inr x))"

text \<open>\<^verbatim>\<open>_log(message)\<close> and \<^verbatim>\<open>_log_step(message, started_at)\<close> print one line.\<close>

definition log_line :: "log_msg \<Rightarrow> unit run" where
  "log_line message = ([Log message], Inr ())"

definition log_step :: "log_msg \<Rightarrow> unit run" where
  "log_step message = log_line message"

text \<open>\<^verbatim>\<open>d[key]\<close> on the event descriptor raises KeyError for a missing key.\<close>

definition event_item :: "'a option \<Rightarrow> string \<Rightarrow> exn + 'a" where
  "event_item field key = (case field of None \<Rightarrow> Inl (KeyError key) | Some v \<Rightarrow> Inr v)"

text \<open>\<^verbatim>\<open>d.get(key, '')\<close>\<close>

definition event_get :: "string option \<Rightarrow> string" where
  "event_get field = (case field of None \<Rightarrow> [] | Some v \<Rightarrow> v)"

text \<open>
  \<^verbatim>\<open>d.get('EventDate', '').strftime('%B %d, %Y') if d.get('EventDate') else ''\<close>
\<close>

definition event_date :: "(exn + string) option \<Rightarrow> exn + string" where
  "event_date field = (case field of None \<Rightarrow> Inr [] | Some rendered \<Rightarrow> rendered)"

section \<open>The signal inspector\<close>

text \<open>
  The loop of \<^verbatim>\<open>_lap_has_drs_activation\<close> over the samples: the first sample whose
  float is at least 10 ends it with True; a sample whose conversion raises TypeError or
  ValueError is passed over; any other exception leaves the loop.
\<close>

fun drs_loop :: "pyval list \<Rightarrow> exn + bool" where
  "drs_loop [] = Inr False"
| "drs_loop (v # drs_values) =
     (case py_float v of
        Inr x \<Rightarrow> if py_ge x 10 then Inr True else drs_loop drs_values
      | Inl TypeError \<Rightarrow> drs_loop drs_values
      | Inl ValueError \<Rightarrow> drs_loop drs_values
      | Inl e \<Rightarrow> Inl e)"

text \<open>
  \<^verbatim>\<open>_lap_has_drs_activation(lap_telemetry)\<close>: False without telemetry or without a
  DRS channel; False when extracting the channel raises; otherwise the loop.
\<close>

definition lap_has_drs_activation :: "telemetry option \<Rightarrow> exn + bool" where
  "lap_has_drs_activation lap_telemetry =
     (case lap_telemetry of
        None \<Rightarrow> Inr False
      | Some t \<Rightarrow>
          if t ''DRS'' = None then Inr False
          else (case getitem t ''DRS'' of
                  Inl e \<Rightarrow> Inr False
                | Inr col \<Rightarrow>
                    (case to_numpy col of
                       Inl e \<Rightarrow> Inr False
                     | Inr drs_values \<Rightarrow> drs_loop drs_values)))"

text \<open>
  The loop deals with a sample when its conversion returns, or raises one of the two
  exceptions the loop catches.
\<close>

definition handled :: "pyval \<Rightarrow> bool" where
  "handled v =
     (case py_float v of
        Inr x \<Rightarrow> True
      | Inl TypeError \<Rightarrow> True
      | Inl ValueError \<Rightarrow> True
      | Inl e \<Rightarrow> False)"

section \<open>The track layout\<close>

text \<open>
  The body of the \<^verbatim>\<open>try\<close> statement of \<^verbatim>\<open>main\<close>: load the qualifying session of the
  same year and round; when it is there and has laps, pick its fastest lap; when there
  is one, take its telemetry; when that shows DRS activation, assign it to
  \<^verbatim>\<open>example_lap\<close>, then read the lap's driver and print the line that names it.
\<close>

definition quali_attempt :: "world \<Rightarrow> int option \<Rightarrow> int option \<Rightarrow> unit run" where
  "quali_attempt w year round_number =
     and_then (call (LoadSession year round_number ''Q'')
                 (load_session w year round_number ''Q'')) (\<lambda>quali_session.
     and_then (log_step LoadedQualifyingSession) (\<lambda>_.
     case quali_session of
       None \<Rightarrow> ret ()
     | Some qs \<Rightarrow>
         if len (laps qs) > 0 then
           and_then (lift (pick_fastest (laps qs))) (\<lambda>fastest_quali.
           case fastest_quali of
             None \<Rightarrow> ret ()
           | Some fq \<Rightarrow>
               and_then (lift (get_telemetry fq)) (\<lambda>quali_telemetry.
               and_then (lift (lap_has_drs_activation quali_telemetry)) (\<lambda>active.
               if active then
                 and_then (call (AssignExampleLap quali_telemetry) (Inr ())) (\<lambda>_.
                 and_then (lift (Driver fq)) (\<lambda>driver.
                 log_line (UsingQualifyingLap driver)))
               else ret ())))
         else ret ()))"

text \<open>
  The value of \<^verbatim>\<open>example_lap\<close> after effects \<open>tr\<close>, from its value before them: the
  last value assigned, if any.
\<close>

fun example_lap_after :: "telemetry option \<Rightarrow> effect list \<Rightarrow> telemetry option" where
  "example_lap_after example_lap [] = example_lap"
| "example_lap_after example_lap (AssignExampleLap t # tr) = example_lap_after t tr"
| "example_lap_after example_lap (e # tr) = example_lap_after example_lap tr"

text \<open>
  The \<^verbatim>\<open>try\<close> statement with its handler, which prints the exception. Its value is
  \<^verbatim>\<open>example_lap\<close> after the statement: an assignment made before the exception stands.
\<close>

definition quali_fallback ::
  "world \<Rightarrow> int option \<Rightarrow> int option \<Rightarrow> telemetry option \<Rightarrow> telemetry option run" where
  "quali_fallback w year round_number example_lap =
     (case try_except (quali_attempt w year round_number)
             (\<lambda>e. log_line (CouldNotLoadQualifying e)) of
        (tr, Inl e) \<Rightarrow> (tr, Inl e)
      | (tr, Inr u) \<Rightarrow> (tr, Inr (example_lap_after example_lap tr)))"

text \<open>
  The choice of the example lap: \<open>Returned\<close> when \<^verbatim>\<open>main\<close> returns for want of a
  fastest lap, \<open>ExampleLap t\<close> when it goes on with \<^verbatim>\<open>example_lap = t\<close>.
\<close>

datatype layout = Returned | ExampleLap "telemetry option"

definition track_layout ::
  "world \<Rightarrow> int option \<Rightarrow> int option \<Rightarrow> session \<Rightarrow> layout run" where
  "track_layout w year round_number s =
     and_then (lift (pick_fastest (laps s))) (\<lambda>fastest_lap.
     case fastest_lap of
       None \<Rightarrow> and_then (log_line NoValidLaps) (\<lambda>_. ret Returned)
     | Some fl \<Rightarrow>
         and_then (lift (get_telemetry fl)) (\<lambda>example_lap.
         and_then (lift (lap_has_drs_activation example_lap)) (\<lambda>active.
         and_then
           (if active then
              and_then (lift (Driver fl)) (\<lambda>driver.
              and_then (log_line (UsingRaceLap driver)) (\<lambda>_. ret example_lap))
            else
              and_then (log_line RaceLapLacksDRS) (\<lambda>_.
              quali_fallback w year round_number example_lap)) (\<lambda>example_lap.
         and_then (log_step TrackLayoutPrepared) (\<lambda>_.
         ret (ExampleLap example_lap))))))"

section \<open>The launcher\<close>

text \<open>
  The circuit length of the banner:
  \<^verbatim>\<open>float(example_lap["Distance"].max()) if example_lap is not None and "Distance" in example_lap else None\<close>
\<close>

definition circuit_length :: "telemetry option \<Rightarrow> exn + pyfloat option" where
  "circuit_length example_lap =
     (case example_lap of
        None \<Rightarrow> Inr None
      | Some t \<Rightarrow>
          if t ''Distance'' = None then Inr None
          else (case getitem t ''Distance'' of
                  Inl e \<Rightarrow> Inl e
                | Inr col \<Rightarrow>
                    (case max_value col of
                       Inl e \<Rightarrow> Inl e
                     | Inr m \<Rightarrow>
                         (case py_float m of
                            Inl e \<Rightarrow> Inl e
                          | Inr x \<Rightarrow> Inr (Some x)))))"

text \<open>The qualifying branch of \<^verbatim>\<open>main\<close>, after the session is loaded.\<close>

definition qualifying_replay ::
  "world \<Rightarrow> string \<Rightarrow> string option \<Rightarrow> session \<Rightarrow> string \<Rightarrow> unit run" where
  "qualifying_replay w session_type ready_file s name =
     and_then (call (GetQualiTelemetry s session_type)
                 (get_quali_telemetry w s session_type)) (\<lambda>qualifying_session_data.
     and_then (log_step PreparedQualifying) (\<lambda>_.
     and_then (log_step SessionReady) (\<lambda>_.
     let args = \<lparr>q_session = s, q_data = qualifying_session_data,
                 q_title = name @ '' - '' @
                   (if session_type = ''SQ'' then ''Sprint Qualifying''
                    else ''Qualifying Results''),
                 q_ready_file = ready_file\<rparr>
     in call (RunQualifyingReplay args) (run_qualifying_replay w args))))"

text \<open>The race branch of \<^verbatim>\<open>main\<close>, from the example lap on.\<close>

definition arcade_replay ::
  "world \<Rightarrow> int option \<Rightarrow> int option \<Rightarrow> real \<Rightarrow> string \<Rightarrow> bool \<Rightarrow> string option \<Rightarrow>
   session \<Rightarrow> string \<Rightarrow> race_telemetry \<Rightarrow> telemetry option \<Rightarrow> unit run" where
  "arcade_replay w year round_number playback_speed session_type visible_hud ready_file
       s name race_telemetry example_lap =
     and_then (call (GetCircuitRotation s) (get_circuit_rotation w s)) (\<lambda>circuit_rotation.
     and_then (lift (event_date (EventDate (event s)))) (\<lambda>rendered_date.
     and_then (lift (circuit_length example_lap)) (\<lambda>length_m.
     let info = \<lparr>event_name = event_get (EventName (event s)),
                 circuit_name = event_get (Location (event s)),
                 country = event_get (Country (event s)),
                 info_year = year,
                 info_round = round_number,
                 date = rendered_date,
                 info_total_laps = total_laps race_telemetry,
                 circuit_length_m = length_m\<rparr>
     in
     and_then (call LaunchInsightsMenu (launch_insights_menu w)) (\<lambda>_.
     and_then (log_line LaunchingInsights) (\<lambda>_.
     and_then (log_step SessionReady) (\<lambda>_.
     let args = \<lparr>arg_frames = frames race_telemetry,
                 arg_track_statuses = track_statuses race_telemetry,
                 arg_example_lap = example_lap,
                 arg_drivers = drivers s,
                 arg_playback_speed = playback_speed,
                 arg_driver_colors = driver_colors race_telemetry,
                 arg_title = name @ '' - '' @
                   (if session_type = ''S'' then ''Sprint'' else ''Race''),
                 arg_total_laps = total_laps race_telemetry,
                 arg_circuit_rotation = circuit_rotation,
                 arg_visible_hud = visible_hud,
                 arg_ready_file = ready_file,
                 arg_session_info = info,
                 arg_session = s,
                 arg_enable_telemetry = True\<rparr>
     in call (RunArcadeReplay args) (run_arcade_replay w args)))))))"

text \<open>
  \<^verbatim>\<open>main(year, round_number, playback_speed, session_type, visible_hud, ready_file)\<close>;
  its last parameter, \<^verbatim>\<open>show_telemetry_viewer\<close>, is never read. A session that is None
  has no \<^verbatim>\<open>event\<close>: AttributeError. The event name read for the first printed line is
  the one the window titles read again.
\<close>

definition main ::
  "world \<Rightarrow> int option \<Rightarrow> int option \<Rightarrow> real \<Rightarrow> string \<Rightarrow> bool \<Rightarrow> string option \<Rightarrow> unit run" where
  "main w year round_number playback_speed session_type visible_hud ready_file =
     and_then (log_line (Loading year round_number session_type)) (\<lambda>_.
     and_then (call EnableCache (enable_cache w)) (\<lambda>_.
     and_then (log_step CacheInitialized) (\<lambda>_.
     and_then (call (LoadSession year round_number session_type)
                 (load_session w year round_number session_type)) (\<lambda>loaded.
     and_then (lift (case loaded of None \<Rightarrow> Inl AttributeError | Some s \<Rightarrow> Inr s)) (\<lambda>s.
     and_then (lift (event_item (EventName (event s)) ''EventName'')) (\<lambda>name.
     and_then (lift (event_item (RoundNumber (event s)) ''RoundNumber'')) (\<lambda>number.
     and_then (log_step (LoadedSession name number session_type)) (\<lambda>_.
     if session_type = ''Q'' \<or> session_type = ''SQ'' then
       qualifying_replay w session_type ready_file s name
     else
       and_then (call (GetRaceTelemetry s session_type)
                   (get_race_telemetry w s session_type)) (\<lambda>race_telemetry.
       and_then (log_step PreparedRace) (\<lambda>_.
       and_then (track_layout w year round_number s) (\<lambda>chosen.
       case chosen of
         Returned \<Rightarrow> ret ()
       | ExampleLap example_lap \<Rightarrow>
           arcade_replay w year round_number playback_speed session_type visible_hud
             ready_file s name race_telemetry example_lap)))))))))))"

section \<open>Reading a run\<close>

text \<open>
  The qualifying lap was adopted as the example lap: the run made the assignment.
\<close>

fun adopts_qualifying :: "effect \<Rightarrow> bool" where
  "adopts_qualifying (AssignExampleLap t) = True"
| "adopts_qualifying _ = False"

definition fallback_used :: "effect list \<Rightarrow> bool" where
  "fallback_used tr = list_ex adopts_qualifying tr"

text \<open>The session loads a run asked for, in order.\<close>

fun session_load :: "effect \<Rightarrow> (int option \<times> int option \<times> string) option" where
  "session_load (LoadSession y r st) = Some (y, r, st)"
| "session_load _ = None"

definition session_loads :: "effect list \<Rightarrow> (int option \<times> int option \<times> string) list" where
  "session_loads tr = List.map_filter session_load tr"

text \<open>The example lap handed to the arcade replay window, for each hand-off of a run.\<close>

fun handed_lap :: "effect \<Rightarrow> telemetry option option" where
  "handed_lap (RunArcadeReplay a) = Some (arg_example_lap a)"
| "handed_lap _ = None"

definition handed_laps :: "effect list \<Rightarrow> telemetry option list" where
  "handed_laps tr = List.map_filter handed_lap tr"



text \<open>
  The stages of a run, each marked by the line printed when it is done: the session is
  loaded, the telemetry dataset is prepared, the track layout telemetry is prepared.
\<close>

datatype stage = SessionLoaded | LayoutResolved | TelemetryAssembled

fun stage_of :: "effect \<Rightarrow> stage option" where
  "stage_of (Log (LoadedSession n k st)) = Some SessionLoaded"
| "stage_of (Log PreparedRace) = Some TelemetryAssembled"
| "stage_of (Log PreparedQualifying) = Some TelemetryAssembled"
| "stage_of (Log TrackLayoutPrepared) = Some LayoutResolved"
| "stage_of _ = None"

definition stages :: "effect list \<Rightarrow> stage list" where
  "stages tr = List.map_filter stage_of tr"

text \<open>The lines printed, and the assignment made, while the example lap is chosen.\<close>

fun layout_line :: "effect \<Rightarrow> bool" where
  "layout_line (Log NoValidLaps) = True"
| "layout_line (AssignExampleLap t) = True"
| "layout_line (Log (UsingRaceLap d)) = True"
| "layout_line (Log RaceLapLacksDRS) = True"
| "layout_line (Log LoadedQualifyingSession) = True"
| "layout_line (Log (UsingQualifyingLap d)) = True"
| "layout_line (Log (CouldNotLoadQualifying e)) = True"
| "layout_line (Log TrackLayoutPrepared) = True"
| "layout_line _ = False"

text \<open>
  A Race or Sprint run that gets to the choice of the example lap: the session type is
  not a qualifying one, and the cache, the load of the session \<open>s\<close>, the first printed
  line and the race dataset \<open>rt\<close> raise nothing. \<open>race_start\<close> is what such a run has
  done by then.
\<close>

definition race_run ::
  "world \<Rightarrow> int option \<Rightarrow> int option \<Rightarrow> string \<Rightarrow> session \<Rightarrow> string \<Rightarrow> int \<Rightarrow>
   race_telemetry \<Rightarrow> bool" where
  "race_run w y r st s name k rt \<longleftrightarrow>
     st \<noteq> ''Q'' \<and> st \<noteq> ''SQ'' \<and> enable_cache w = Inr () \<and>
     load_session w y r st = Inr (Some s) \<and>
     EventName (event s) = Some name \<and> RoundNumber (event s) = Some k \<and>
     get_race_telemetry w s st = Inr rt"

definition race_start ::
  "int option \<Rightarrow> int option \<Rightarrow> string \<Rightarrow> session \<Rightarrow> string \<Rightarrow> int \<Rightarrow> effect list" where
  "race_start y r st s name k =
     [Log (Loading y r st), EnableCache, Log CacheInitialized, LoadSession y r st,
      Log (LoadedSession name k st), GetRaceTelemetry s st, Log PreparedRace]"

section \<open>Example sessions\<close>

definition level :: "real \<Rightarrow> pyval" where
  "level x = PyNum (Finite x)"

text \<open>An int that no double holds.\<close>

definition beyond_double :: int where
  "beyond_double = 10 ^ 400"

definition column_of :: "pyval list \<Rightarrow> pyval \<Rightarrow> column" where
  "column_of vs m = \<lparr>to_numpy = Inr vs, max_value = Inr m\<rparr>"

definition distance_column :: column where
  "distance_column = column_of [level 0, level 2900, level 5793] (level 5793)"

definition race_active_tel :: telemetry where
  "race_active_tel =
     [''DRS'' \<mapsto> column_of [level 0, level 0, level 15, level 0] (level 15),
      ''Distance'' \<mapsto> distance_column]"

definition race_idle_tel :: telemetry where
  "race_idle_tel =
     [''DRS'' \<mapsto> column_of [level 0, level 0, level 0, level 0] (level 0),
      ''Distance'' \<mapsto> distance_column]"

definition quali_active_tel :: telemetry where
  "quali_active_tel =
     [''DRS'' \<mapsto> column_of [level 0, level 12, level 12, level 0] (level 12),
      ''Distance'' \<mapsto> distance_column]"

definition quali_idle_tel :: telemetry where
  "quali_idle_tel =
     [''DRS'' \<mapsto> column_of [level 0, level 9, level 0] (level 9),
      ''Distance'' \<mapsto> distance_column]"

definition mixed_tel :: "pyval list \<Rightarrow> telemetry" where
  "mixed_tel vs = [''DRS'' \<mapsto> column_of vs PyNone]"

definition broken_tel :: telemetry where
  "broken_tel =
     [''DRS'' \<mapsto> \<lparr>to_numpy = Inl (Error ''decode''), max_value = Inl (Error ''decode'')\<rparr>]"

definition bare_tel :: telemetry where
  "bare_tel = [''Speed'' \<mapsto> column_of [level 280, level 310] (level 310)]"

definition lap_of :: "string \<Rightarrow> telemetry \<Rightarrow> lap" where
  "lap_of d t = \<lparr>Driver = Inr d, get_telemetry = Inr (Some t)\<rparr>"

definition spa :: event_info where
  "spa = \<lparr>EventName = Some ''Belgian Grand Prix'', RoundNumber = Some 13,
          Location = Some ''Spa-Francorchamps'', Country = Some ''Belgium'',
          EventDate = Some (Inr ''July 27, 2025'')\<rparr>"

definition session_of :: "nat \<Rightarrow> lap option \<Rightarrow> session" where
  "session_of n fastest =
     \<lparr>event = spa, laps = \<lparr>len = n, pick_fastest = Inr fastest\<rparr>,
      drivers = [''VER'', ''NOR'', ''PIA'']\<rparr>"

text \<open>
  A race of three drivers whose fastest lap shows DRS activation, one whose fastest lap
  shows none, qualifying sessions of both kinds, a session without laps, a qualifying
  session whose lap table cannot be read, and one whose fastest lap shows activation
  but has no driver column.
\<close>

definition active_race :: session where
  "active_race = session_of 3 (Some (lap_of ''VER'' race_active_tel))"

definition idle_race :: session where
  "idle_race = session_of 3 (Some (lap_of ''NOR'' race_idle_tel))"

definition active_quali :: session where
  "active_quali = session_of 20 (Some (lap_of ''PIA'' quali_active_tel))"

definition idle_quali :: session where
  "idle_quali = session_of 20 (Some (lap_of ''PIA'' quali_idle_tel))"

definition empty_session :: session where
  "empty_session = session_of 0 None"

definition malformed_quali :: session where
  "malformed_quali =
     \<lparr>event = spa, laps = \<lparr>len = 20, pick_fastest = Inl (Error ''malformed'')\<rparr>,
      drivers = [''VER'', ''NOR'', ''PIA'']\<rparr>"

definition driverless_quali :: session where
  "driverless_quali =
     session_of 20
       (Some \<lparr>Driver = Inl (KeyError ''Driver''), get_telemetry = Inr (Some quali_active_tel)\<rparr>)"

definition spa_race :: race_telemetry where
  "spa_race = \<lparr>frames = 1, track_statuses = 2, driver_colors = 3, total_laps = 44\<rparr>"

text \<open>
  A data source that answers a load of the qualifying session with \<open>quali\<close> and every
  other load with the session \<open>primary\<close>.
\<close>

definition source :: "session \<Rightarrow> exn + session option \<Rightarrow> world" where
  "source primary quali =
     \<lparr>enable_cache = Inr (),
      load_session = (\<lambda>y r st. if st = ''Q'' then quali else Inr (Some primary)),
      get_quali_telemetry = (\<lambda>s st. Inr 4),
      get_race_telemetry = (\<lambda>s st. Inr spa_race),
      get_circuit_rotation = (\<lambda>s. Inr 5),
      launch_insights_menu = Inr (),
      run_qualifying_replay = (\<lambda>a. Inr ()),
      run_arcade_replay = (\<lambda>a. Inr ())\<rparr>"

section \<open>Properties of the signal inspector\<close>

lemma handled_cases:
  "handled v \<longleftrightarrow> (\<exists>x. py_float v = Inr x) \<or> py_float v = Inl TypeError \<or> py_float v = Inl ValueError"
  by (cases v) (simp_all add: handled_def)

lemma drs_loop_exists:
  "\<forall>v \<in> set vs. handled v \<Longrightarrow>
   drs_loop vs = Inr (\<exists>v \<in> set vs. \<exists>x. py_float v = Inr x \<and> py_ge x 10)"
proof (induction vs)
  case Nil
  show ?case by simp
next
  case (Cons v vs)
  then have tl: "drs_loop vs = Inr (\<exists>v \<in> set vs. \<exists>x. py_float v = Inr x \<and> py_ge x 10)"
    by simp
  from Cons.prems have hv: "handled v" by simp
  show ?case
  proof (cases v)
    case (PyNum x)
    with tl show ?thesis by auto
  next
    case (PyStr s)
    with tl show ?thesis by simp
  next
    case PyNone
    with tl show ?thesis by simp
  next
    case (PyBigInt n)
    with hv show ?thesis by (simp add: handled_def)
  qed
qed

lemma drs_loop_skips:
  "\<forall>v \<in> set bad. py_float v = Inl TypeError \<or> py_float v = Inl ValueError \<Longrightarrow>
   drs_loop (bad @ rest) = drs_loop rest"
  by (induction bad) auto

lemma drs_loop_early:
  "\<forall>v \<in> set pre. handled v \<Longrightarrow>
   \<exists>v \<in> set pre. \<exists>x. py_float v = Inr x \<and> py_ge x 10 \<Longrightarrow>
   drs_loop (pre @ rest) = Inr True"
proof (induction pre)
  case Nil
  then show ?case by simp
next
  case (Cons v pre)
  from Cons.prems(1) have hv: "handled v" and hp: "\<forall>v \<in> set pre. handled v" by simp_all
  show ?case
  proof (cases "\<exists>x. py_float v = Inr x \<and> py_ge x 10")
    case True
    then show ?thesis by auto
  next
    case False
    with Cons.prems(2) have "\<exists>v \<in> set pre. \<exists>x. py_float v = Inr x \<and> py_ge x 10" by auto
    with Cons.IH hp have tl: "drs_loop (pre @ rest) = Inr True" by simp
    from hv False tl show ?thesis
      by (cases v) (auto simp: handled_def)
  qed
qed

lemma drs_loop_raises:
  "\<forall>v \<in> set pre. handled v \<and> \<not> (\<exists>x. py_float v = Inr x \<and> py_ge x 10) \<Longrightarrow>
   py_float b = Inl e \<Longrightarrow> e \<noteq> TypeError \<Longrightarrow> e \<noteq> ValueError \<Longrightarrow>
   drs_loop (pre @ b # rest) = Inl e"
proof (induction pre)
  case Nil
  then show ?case by (cases e) simp_all
next
  case (Cons v pre)
  then have tl: "drs_loop (pre @ b # rest) = Inl e" by simp
  from Cons.prems(1) have "handled v" "\<not> (\<exists>x. py_float v = Inr x \<and> py_ge x 10)" by simp_all
  with tl show ?case
    by (cases v) (auto simp: handled_def)
qed

lemma drs_loop_exn:
  "drs_loop vs = Inl e \<Longrightarrow> e = OverflowError"
proof (induction vs)
  case Nil
  then show ?case by simp
next
  case (Cons v vs)
  then show ?case
    by (cases v) (auto split: if_splits)
qed

text \<open>
  C3, as the inspector has it. Without telemetry, or without a DRS channel, the
  inspector answers False. With a DRS channel whose samples all convert or raise
  TypeError or ValueError, it answers True exactly when some sample, at any position,
  converts to a number that is at least 10. In any channel it answers True when such a
  sample comes before every sample whose conversion raises another exception.
\<close>

theorem lap_has_drs_activation_threshold:
  "lap_has_drs_activation None = Inr False \<and>
   (t ''DRS'' = None \<longrightarrow> lap_has_drs_activation (Some t) = Inr False) \<and>
   (t ''DRS'' = Some col \<and> to_numpy col = Inr drs_values \<and>
    (\<forall>v \<in> set drs_values. handled v) \<longrightarrow>
      lap_has_drs_activation (Some t) =
        Inr (\<exists>v \<in> set drs_values. \<exists>x. py_float v = Inr x \<and> py_ge x 10)) \<and>
   (t ''DRS'' = Some col \<and> to_numpy col = Inr (pre @ rest) \<and>
    (\<forall>v \<in> set pre. handled v) \<and>
    (\<exists>v \<in> set pre. \<exists>x. py_float v = Inr x \<and> py_ge x 10) \<longrightarrow>
      lap_has_drs_activation (Some t) = Inr True)"
  by (simp add: lap_has_drs_activation_def getitem_def drs_loop_exists drs_loop_early)

theorem lap_has_drs_activation_threshold_witness:
  "lap_has_drs_activation (Some bare_tel) = Inr False \<and>
   lap_has_drs_activation (Some race_active_tel) = Inr True \<and>
   lap_has_drs_activation (Some race_idle_tel) = Inr False \<and>
   lap_has_drs_activation (Some quali_idle_tel) = Inr False \<and>
   lap_has_drs_activation (Some (mixed_tel [level 10])) = Inr True \<and>
   lap_has_drs_activation (Some (mixed_tel [level 0, level 0, level 0, level 10])) = Inr True \<and>
   lap_has_drs_activation (Some (mixed_tel [level 0, level 12, PyBigInt beyond_double])) = Inr True"
proof -
  have a: "bare_tel ''DRS'' = None"
    by (simp add: bare_tel_def)
  have b: "race_active_tel ''DRS'' = Some (column_of [level 0, level 0, level 15, level 0] (level 15))"
    by (simp add: race_active_tel_def)
  have c: "race_idle_tel ''DRS'' = Some (column_of [level 0, level 0, level 0, level 0] (level 0))"
    by (simp add: race_idle_tel_def)
  have d: "quali_idle_tel ''DRS'' = Some (column_of [level 0, level 9, level 0] (level 9))"
    by (simp add: quali_idle_tel_def)
  have e: "mixed_tel vs ''DRS'' = Some (column_of vs PyNone)" for vs
    by (simp add: mixed_tel_def)
  have n: "to_numpy (column_of vs m) = Inr vs" for vs m
    by (simp add: column_of_def)
  have h: "handled (level x)" for x
    by (simp add: handled_def level_def)
  have s: "[level 0, level 12, PyBigInt beyond_double] = [level 0, level 12] @ [PyBigInt beyond_double]"
    by simp
  show ?thesis
    using lap_has_drs_activation_threshold [of bare_tel]
      lap_has_drs_activation_threshold [of race_active_tel
        "column_of [level 0, level 0, level 15, level 0] (level 15)"
        "[level 0, level 0, level 15, level 0]" "[]" "[]"]
      lap_has_drs_activation_threshold [of race_idle_tel
        "column_of [level 0, level 0, level 0, level 0] (level 0)"
        "[level 0, level 0, level 0, level 0]" "[]" "[]"]
      lap_has_drs_activation_threshold [of quali_idle_tel
        "column_of [level 0, level 9, level 0] (level 9)" "[level 0, level 9, level 0]"
        "[]" "[]"]
      lap_has_drs_activation_threshold [of "mixed_tel [level 10]"
        "column_of [level 10] PyNone" "[level 10]" "[]" "[]"]
      lap_has_drs_activation_threshold [of "mixed_tel [level 0, level 0, level 0, level 10]"
        "column_of [level 0, level 0, level 0, level 10] PyNone"
        "[level 0, level 0, level 0, level 10]" "[]" "[]"]
      lap_has_drs_activation_threshold [of
        "mixed_tel [level 0, level 12, PyBigInt beyond_double]"
        "column_of [level 0, level 12, PyBigInt beyond_double] PyNone" "[]"
        "[level 0, level 12]" "[PyBigInt beyond_double]"]
    by (simp add: a b c d e n h) (simp add: level_def)
qed

text \<open>
  C3 as stated fails: in the samples 0, \<open>10 ^ 400\<close>, 12 a sample is at least 10, yet
  the inspector does not answer True; the conversion of the second sample raises
  OverflowError, which the loop does not catch.
\<close>

theorem inspector_misses_sample_after_big_int:
  "(\<exists>v \<in> set [level 0, PyBigInt beyond_double, level 12].
      \<exists>x. py_float v = Inr x \<and> py_ge x 10) \<and>
   lap_has_drs_activation (Some (mixed_tel [level 0, PyBigInt beyond_double, level 12])) =
     Inl OverflowError \<and>
   lap_has_drs_activation (Some (mixed_tel [level 0, PyBigInt beyond_double, level 12])) \<noteq>
     Inr True"
  by (simp add: lap_has_drs_activation_def getitem_def mixed_tel_def column_of_def level_def)

text \<open>
  C4, as the inspector has it. The inspector never raises TypeError or ValueError.
  Without telemetry or DRS channel, and for a channel whose extraction fails, it answers
  False. Samples whose conversion raises TypeError or ValueError are passed over and the
  loop goes on with the rest, so the samples "x", 12 give True and the samples "x", "y"
  give False; when every sample converts or raises one of these two, the inspector
  returns. An exception of another class raised by a conversion (OverflowError, for an
  int beyond the range of a double), met before any sample that is at least 10, leaves
  the inspector.
\<close>

theorem lap_has_drs_activation_never_raises:
  "lap_has_drs_activation None = Inr False \<and>
   (t ''DRS'' = None \<longrightarrow> lap_has_drs_activation (Some t) = Inr False) \<and>
   (t ''DRS'' = Some col \<and> to_numpy col = Inl e \<longrightarrow>
      lap_has_drs_activation (Some t) = Inr False) \<and>
   (t ''DRS'' = Some col \<and> to_numpy col = Inr drs_values \<and>
    (\<forall>v \<in> set drs_values. handled v) \<longrightarrow>
      (\<exists>b. lap_has_drs_activation (Some t) = Inr b)) \<and>
   (t ''DRS'' = Some col \<and> to_numpy col = Inr (bad @ rest) \<and>
    (\<forall>v \<in> set bad. py_float v = Inl TypeError \<or> py_float v = Inl ValueError) \<longrightarrow>
      lap_has_drs_activation (Some t) = drs_loop rest) \<and>
   lap_has_drs_activation (Some (mixed_tel [PyStr ''x'', level 12])) = Inr True \<and>
   lap_has_drs_activation (Some (mixed_tel [PyStr ''x'', PyStr ''y''])) = Inr False \<and>
   (lap_has_drs_activation lap_telemetry = Inl e' \<longrightarrow> e' \<noteq> TypeError \<and> e' \<noteq> ValueError) \<and>
   (t ''DRS'' = Some col \<and> to_numpy col = Inr (pre @ big # rest) \<and>
    (\<forall>v \<in> set pre. handled v \<and> \<not> (\<exists>x. py_float v = Inr x \<and> py_ge x 10)) \<and>
    py_float big = Inl e' \<and> e' \<noteq> TypeError \<and> e' \<noteq> ValueError \<longrightarrow>
      lap_has_drs_activation (Some t) = Inl e')"
proof -
  have 1: "lap_has_drs_activation None = Inr False"
    by (simp add: lap_has_drs_activation_def)
  have 2: "lap_has_drs_activation (Some t) = Inr False" if "t ''DRS'' = None"
    using that by (simp add: lap_has_drs_activation_def)
  have 3: "lap_has_drs_activation (Some t) = Inr False"
    if "t ''DRS'' = Some col" "to_numpy col = Inl e"
    using that by (simp add: lap_has_drs_activation_def getitem_def)
  have 4: "\<exists>b. lap_has_drs_activation (Some t) = Inr b"
    if "t ''DRS'' = Some col" "to_numpy col = Inr drs_values" "\<forall>v \<in> set drs_values. handled v"
    using that by (simp add: lap_has_drs_activation_def getitem_def drs_loop_exists)
  have 5: "lap_has_drs_activation (Some t) = drs_loop rest"
    if "t ''DRS'' = Some col" "to_numpy col = Inr (bad @ rest)"
      "\<forall>v \<in> set bad. py_float v = Inl TypeError \<or> py_float v = Inl ValueError"
    using that by (simp add: lap_has_drs_activation_def getitem_def drs_loop_skips)
  have 6: "lap_has_drs_activation (Some (mixed_tel [PyStr ''x'', level 12])) = Inr True"
    by (simp add: lap_has_drs_activation_def getitem_def mixed_tel_def column_of_def level_def)
  have 7: "lap_has_drs_activation (Some (mixed_tel [PyStr ''x'', PyStr ''y''])) = Inr False"
    by (simp add: lap_has_drs_activation_def getitem_def mixed_tel_def column_of_def)
  have 8: "e' \<noteq> TypeError \<and> e' \<noteq> ValueError" if "lap_has_drs_activation lap_telemetry = Inl e'"
    using that
    by (auto simp: lap_has_drs_activation_def getitem_def
        split: option.splits sum.splits if_splits dest: drs_loop_exn)
  have 9: "lap_has_drs_activation (Some t) = Inl e'"
    if "t ''DRS'' = Some col" "to_numpy col = Inr (pre @ big # rest)"
      "\<forall>v \<in> set pre. handled v \<and> \<not> (\<exists>x. py_float v = Inr x \<and> py_ge x 10)"
      "py_float big = Inl e'" "e' \<noteq> TypeError" "e' \<noteq> ValueError"
    using that by (simp add: lap_has_drs_activation_def getitem_def drs_loop_raises)
  from 1 2 3 4 5 6 7 8 9 show ?thesis by blast
qed

theorem lap_has_drs_activation_never_raises_witness:
  "lap_has_drs_activation (Some broken_tel) = Inr False \<and>
   lap_has_drs_activation (Some (mixed_tel [PyStr ''x'', PyNone, level 12, PyStr ''y''])) = Inr True \<and>
   lap_has_drs_activation (Some (mixed_tel [PyNone, PyStr ''n/a'', level 9])) = Inr False \<and>
   lap_has_drs_activation (Some (mixed_tel [level 9, PyStr ''x'', PyBigInt beyond_double, level 12])) =
     Inl OverflowError"
proof -
  have a: "broken_tel ''DRS'' = Some \<lparr>to_numpy = Inl (Error ''decode''), max_value = Inl (Error ''decode'')\<rparr>"
    by (simp add: broken_tel_def)
  have b: "mixed_tel vs ''DRS'' = Some (column_of vs PyNone)" for vs
    by (simp add: mixed_tel_def)
  have n: "to_numpy (column_of vs m) = Inr vs" for vs m
    by (simp add: column_of_def)
  show ?thesis
    using lap_has_drs_activation_never_raises [of broken_tel
        "\<lparr>to_numpy = Inl (Error ''decode''), max_value = Inl (Error ''decode'')\<rparr>"
        "Error ''decode''" "[]" "[]" "[]" None undefined "[]" undefined]
      lap_has_drs_activation_never_raises [of
        "mixed_tel [PyStr ''x'', PyNone, level 12, PyStr ''y'']"
        "column_of [PyStr ''x'', PyNone, level 12, PyStr ''y''] PyNone" undefined "[]"
        "[PyStr ''x'', PyNone]" "[level 12, PyStr ''y'']" None undefined "[]" undefined]
      lap_has_drs_activation_never_raises [of
        "mixed_tel [PyNone, PyStr ''n/a'', level 9]"
        "column_of [PyNone, PyStr ''n/a'', level 9] PyNone" undefined "[]"
        "[PyNone, PyStr ''n/a'']" "[level 9]" None undefined "[]" undefined]
      lap_has_drs_activation_never_raises [of
        "mixed_tel [level 9, PyStr ''x'', PyBigInt beyond_double, level 12]"
        "column_of [level 9, PyStr ''x'', PyBigInt beyond_double, level 12] PyNone" undefined "[]"
        "[]" "[level 12]" None OverflowError "[level 9, PyStr ''x'']" "PyBigInt beyond_double"]
    by (simp add: a b n level_def handled_def)
qed

text \<open>
  C4 as stated fails: on the single sample \<open>10 ^ 400\<close> the inspector raises
  OverflowError.
\<close>

theorem inspector_raises_on_big_int:
  "lap_has_drs_activation (Some (mixed_tel [PyBigInt beyond_double])) = Inl OverflowError"
  by (simp add: lap_has_drs_activation_def getitem_def mixed_tel_def column_of_def)


section \<open>Properties of a run\<close>

lemma and_then_Inl: "and_then (t, Inl e) f = (t, Inl e)"
  by (simp add: and_then_def)

lemma and_then_Inr: "and_then (t, Inr x) f = (t @ fst (f x), snd (f x))"
  by (simp add: and_then_def split: prod.splits)

lemma try_except_Inl: "try_except (t, Inl e) h = (t @ fst (h e), snd (h e))"
  by (simp add: try_except_def split: prod.splits)

lemma try_except_Inr: "try_except (t, Inr x) h = (t, Inr x)"
  by (simp add: try_except_def)

lemmas run_simps =
  and_then_Inl and_then_Inr try_except_Inl try_except_Inr
  ret_def lift_def call_def log_line_def log_step_def

lemma fst_and_then:
  "fst (and_then m f) = fst m @ (case snd m of Inl e \<Rightarrow> [] | Inr x \<Rightarrow> fst (f x))"
  by (cases m) (auto simp: and_then_def split: sum.splits prod.splits)

lemma snd_and_then:
  "snd (and_then m f) = (case snd m of Inl e \<Rightarrow> Inl e | Inr x \<Rightarrow> snd (f x))"
  by (cases m) (auto simp: and_then_def split: sum.splits prod.splits)

lemma stages_append: "stages (a @ b) = stages a @ stages b"
  by (simp add: stages_def map_filter_def)

lemma loads_append: "session_loads (a @ b) = session_loads a @ session_loads b"
  by (simp add: session_loads_def map_filter_def)

lemma handed_append: "handed_laps (a @ b) = handed_laps a @ handed_laps b"
  by (simp add: handed_laps_def map_filter_def)

lemma fallback_append: "fallback_used (a @ b) = (fallback_used a \<or> fallback_used b)"
  by (simp add: fallback_used_def list_ex_iff) blast

lemma arcade_replay_reads:
  "stages (fst (arcade_replay w y r sp st hud rf s name rt ex)) = [] \<and>
   session_loads (fst (arcade_replay w y r sp st hud rf s name rt ex)) = [] \<and>
   \<not> fallback_used (fst (arcade_replay w y r sp st hud rf s name rt ex)) \<and>
   prefix (handed_laps (fst (arcade_replay w y r sp st hud rf s name rt ex))) [ex] \<and>
   (snd (arcade_replay w y r sp st hud rf s name rt ex) = Inr () \<longrightarrow>
      handed_laps (fst (arcade_replay w y r sp st hud rf s name rt ex)) = [ex])"
  by (auto simp: arcade_replay_def run_simps Let_def and_then_def stages_def session_loads_def
        handed_laps_def fallback_used_def map_filter_def
      split: sum.splits prod.splits)

lemma reads_Nil:
  "stages [] = []" "session_loads [] = []" "handed_laps [] = []" "\<not> fallback_used []"
  by (simp_all add: stages_def session_loads_def handed_laps_def fallback_used_def
      map_filter_def)

lemma reads_Cons:
  "stages (e # tr) = (case stage_of e of None \<Rightarrow> stages tr | Some g \<Rightarrow> g # stages tr)"
  "session_loads (e # tr) =
     (case session_load e of None \<Rightarrow> session_loads tr | Some l \<Rightarrow> l # session_loads tr)"
  "handed_laps (e # tr) =
     (case handed_lap e of None \<Rightarrow> handed_laps tr | Some l \<Rightarrow> l # handed_laps tr)"
  "fallback_used (e # tr) = (adopts_qualifying e \<or> fallback_used tr)"
  by (simp_all add: stages_def session_loads_def handed_laps_def fallback_used_def
      map_filter_def split: option.splits)

lemmas reads = reads_Nil reads_Cons stages_append loads_append handed_append fallback_append


lemma example_lap_after_unassigned:
  "\<not> fallback_used tr \<Longrightarrow> example_lap_after ex tr = ex"
proof (induction tr)
  case Nil
  show ?case by simp
next
  case (Cons e tr)
  then show ?case
    by (cases e) (simp_all add: fallback_used_def)
qed

lemma quali_attempt_cases:
  "stages (fst (quali_attempt w y r)) = [] \<and>
   session_loads (fst (quali_attempt w y r)) = [(y, r, ''Q'')] \<and>
   handed_laps (fst (quali_attempt w y r)) = [] \<and>
   (\<not> fallback_used (fst (quali_attempt w y r)) \<or>
    (\<exists>qs fq qt. load_session w y r ''Q'' = Inr (Some qs) \<and> 0 < len (laps qs) \<and>
       pick_fastest (laps qs) = Inr (Some fq) \<and> get_telemetry fq = Inr qt \<and>
       lap_has_drs_activation qt = Inr True \<and>
       (\<forall>ex. example_lap_after ex (fst (quali_attempt w y r)) = qt)))"
  by (auto simp: quali_attempt_def call_def lift_def ret_def log_line_def log_step_def
        fst_and_then snd_and_then reads
      split: sum.splits option.splits)

lemma quali_fallback_trace:
  "quali_fallback w y r ex =
     (fst (quali_attempt w y r) @
        (case snd (quali_attempt w y r) of
           Inl e \<Rightarrow> [Log (CouldNotLoadQualifying e)]
         | Inr u \<Rightarrow> []),
      Inr (example_lap_after ex (fst (quali_attempt w y r))))"
proof (cases "quali_attempt w y r")
  case (Pair tr out)
  have after: "example_lap_after ex (tr @ [Log (CouldNotLoadQualifying e)]) =
      example_lap_after ex tr" for e
    by (induction ex tr rule: example_lap_after.induct) simp_all
  show ?thesis
    by (cases out) (simp_all add: Pair quali_fallback_def run_simps after)
qed

lemma quali_fallback_cases:
  "\<exists>tr final. quali_fallback w y r ex = (tr, Inr final) \<and> stages tr = [] \<and>
     session_loads tr = [(y, r, ''Q'')] \<and> handed_laps tr = [] \<and>
     (final = ex \<and> \<not> fallback_used tr \<or>
      fallback_used tr \<and>
      (\<exists>qs fq. load_session w y r ''Q'' = Inr (Some qs) \<and> 0 < len (laps qs) \<and>
         pick_fastest (laps qs) = Inr (Some fq) \<and> get_telemetry fq = Inr final \<and>
         lap_has_drs_activation final = Inr True))"
proof -
  let ?tr = "fst (quali_attempt w y r)"
  let ?log = "case snd (quali_attempt w y r) of
      Inl e \<Rightarrow> [Log (CouldNotLoadQualifying e)] | Inr u \<Rightarrow> []"
  have log: "stages ?log = []" "session_loads ?log = []" "handed_laps ?log = []"
    "\<not> fallback_used ?log"
    by (simp_all add: reads split: sum.splits)
  note a = quali_attempt_cases [of w y r]
  have "stages (?tr @ ?log) = [] \<and> session_loads (?tr @ ?log) = [(y, r, ''Q'')] \<and>
      handed_laps (?tr @ ?log) = [] \<and> fallback_used (?tr @ ?log) = fallback_used ?tr"
    using a log by (simp add: stages_append loads_append handed_append fallback_append)
  moreover have "example_lap_after ex ?tr = ex \<and> \<not> fallback_used ?tr \<or>
      fallback_used ?tr \<and>
      (\<exists>qs fq. load_session w y r ''Q'' = Inr (Some qs) \<and> 0 < len (laps qs) \<and>
         pick_fastest (laps qs) = Inr (Some fq) \<and>
         get_telemetry fq = Inr (example_lap_after ex ?tr) \<and>
         lap_has_drs_activation (example_lap_after ex ?tr) = Inr True)"
    using a example_lap_after_unassigned [of ?tr ex] by auto
  ultimately show ?thesis
    by (simp add: quali_fallback_trace)
qed

lemma main_race_run:
  assumes "race_run w y r st s name k rt"
  shows "main w y r sp st hud rf =
     and_then (race_start y r st s name k, Inr ()) (\<lambda>_.
     and_then (track_layout w y r s) (\<lambda>chosen.
       case chosen of
         Returned \<Rightarrow> ret ()
       | ExampleLap ex \<Rightarrow> arcade_replay w y r sp st hud rf s name rt ex))"
  using assms
  by (simp add: race_run_def main_def race_start_def run_simps event_item_def
      split: prod.splits)

lemma main_race_layout:
  assumes "race_run w y r st s name k rt"
    and "track_layout w y r s = (tr, Inr (ExampleLap ex))"
  shows "main w y r sp st hud rf =
     (race_start y r st s name k @ tr @ fst (arcade_replay w y r sp st hud rf s name rt ex),
      snd (arcade_replay w y r sp st hud rf s name rt ex))"
  by (simp add: main_race_run [OF assms(1)] assms(2) run_simps)

lemma main_race_returned:
  assumes "race_run w y r st s name k rt"
    and "track_layout w y r s = (tr, Inr Returned)"
  shows "main w y r sp st hud rf = (race_start y r st s name k @ tr, Inr ())"
  by (simp add: main_race_run [OF assms(1)] assms(2) run_simps)

lemma race_start_reads:
  "stages (race_start y r st s name k) = [SessionLoaded, TelemetryAssembled] \<and>
   session_loads (race_start y r st s name k) = [(y, r, st)] \<and>
   handed_laps (race_start y r st s name k) = [] \<and>
   \<not> fallback_used (race_start y r st s name k)"
  by (simp add: race_start_def stages_def session_loads_def handed_laps_def
      fallback_used_def map_filter_def)

text \<open>
  C1, as the launcher has it. A Race or Sprint run whose primary session yields no
  fastest lap prints the error line and returns to its caller: it raises nothing. By
  then the race dataset has been prepared; nothing is handed to a replay window, and
  neither the circuit rotation nor the banner record is computed.
\<close>

theorem main_no_fastest_lap:
  assumes "race_run w y r st s name k rt"
    and "pick_fastest (laps s) = Inr None"
  shows "main w y r sp st hud rf = (race_start y r st s name k @ [Log NoValidLaps], Inr ()) \<and>
    handed_laps (fst (main w y r sp st hud rf)) = []"
proof -
  have "track_layout w y r s = ([Log NoValidLaps], Inr Returned)"
    using assms(2) by (simp add: track_layout_def run_simps)
  then have "main w y r sp st hud rf = (race_start y r st s name k @ [Log NoValidLaps], Inr ())"
    by (rule main_race_returned [OF assms(1)])
  then show ?thesis
    by (simp add: handed_append race_start_reads) (simp add: handed_laps_def map_filter_def)
qed

lemma source_race_run:
  "st \<noteq> ''Q'' \<Longrightarrow> st \<noteq> ''SQ'' \<Longrightarrow>
   race_run (source (session_of n fastest) quali) y r st (session_of n fastest)
     ''Belgian Grand Prix'' 13 spa_race"
  by (simp add: race_run_def source_def session_of_def spa_def)

theorem main_no_fastest_lap_witness:
  "main (source empty_session (Inl (Error ''no data''))) (Some 2025) (Some 13) 1 ''R''
      True None =
     ([Log (Loading (Some 2025) (Some 13) ''R''), EnableCache, Log CacheInitialized,
       LoadSession (Some 2025) (Some 13) ''R'',
       Log (LoadedSession ''Belgian Grand Prix'' 13 ''R''),
       GetRaceTelemetry empty_session ''R'', Log PreparedRace, Log NoValidLaps],
      Inr ())"
proof -
  have a: "race_run (source empty_session (Inl (Error ''no data''))) (Some 2025) (Some 13)
      ''R'' empty_session ''Belgian Grand Prix'' 13 spa_race"
    by (simp add: source_race_run empty_session_def)
  have b: "pick_fastest (laps empty_session) = Inr None"
    by (simp add: session_of_def empty_session_def)
  show ?thesis
    using main_no_fastest_lap [OF a b, of 1 True None]
    by (simp add: race_start_def)
qed

text \<open>
  C1 as stated fails: on a race session without a fastest lap the run returns normally,
  it does not end in an exception.
\<close>

theorem no_laps_run_returns:
  "pick_fastest (laps empty_session) = Inr None \<and>
   snd (main (source empty_session (Inl (Error ''no data''))) (Some 2025) (Some 13) 1
     ''R'' True None) = Inr () \<and>
   (\<nexists>e. snd (main (source empty_session (Inl (Error ''no data''))) (Some 2025)
     (Some 13) 1 ''R'' True None) = Inl e)"
  by (simp add: main_def track_layout_def run_simps source_def session_of_def spa_def
      event_item_def empty_session_def)


lemma track_layout_active:
  assumes "pick_fastest (laps s) = Inr (Some fl)" and "get_telemetry fl = Inr tel"
    and "lap_has_drs_activation tel = Inr True"
  shows "track_layout w y r s =
    (case Driver fl of
       Inl e \<Rightarrow> ([], Inl e)
     | Inr d \<Rightarrow> ([Log (UsingRaceLap d), Log TrackLayoutPrepared], Inr (ExampleLap tel)))"
  using assms by (simp add: track_layout_def run_simps split: sum.splits)

lemma track_layout_idle:
  assumes "pick_fastest (laps s) = Inr (Some fl)" and "get_telemetry fl = Inr tel"
    and "lap_has_drs_activation tel = Inr False"
    and "quali_fallback w y r tel = (tr, Inr final)"
  shows "track_layout w y r s =
    (Log RaceLapLacksDRS # tr @ [Log TrackLayoutPrepared], Inr (ExampleLap final))"
  using assms by (simp add: track_layout_def run_simps)

lemma track_layout_raises:
  assumes "pick_fastest (laps s) = Inr (Some fl)" and "get_telemetry fl = Inr tel"
    and "lap_has_drs_activation tel = Inl e"
  shows "track_layout w y r s = ([], Inl e)"
  using assms by (simp add: track_layout_def run_simps)

lemma main_race_raised:
  assumes "race_run w y r st s name k rt"
    and "track_layout w y r s = (tr, Inl e)"
  shows "main w y r sp st hud rf = (race_start y r st s name k @ tr, Inl e)"
  by (simp add: main_race_run [OF assms(1)] assms(2) run_simps)

lemma main_race_reads:
  assumes "race_run w y r st s name k rt"
    and "track_layout w y r s = (tr, Inr (ExampleLap final))"
    and "handed_laps tr = []"
  shows "fallback_used (fst (main w y r sp st hud rf)) = fallback_used tr"
    and "session_loads (fst (main w y r sp st hud rf)) = (y, r, st) # session_loads tr"
    and "prefix (handed_laps (fst (main w y r sp st hud rf))) [final]"
    and "snd (main w y r sp st hud rf) = Inr () \<longrightarrow>
           handed_laps (fst (main w y r sp st hud rf)) = [final]"
proof -
  note run = main_race_layout [OF assms(1,2), of sp hud rf]
  note rest = arcade_replay_reads [of w y r sp st hud rf s name rt final]
  note tr = assms(3)
  show "fallback_used (fst (main w y r sp st hud rf)) = fallback_used tr"
    using rest by (simp add: run reads race_start_reads)
  show "session_loads (fst (main w y r sp st hud rf)) = (y, r, st) # session_loads tr"
    using rest by (simp add: run reads race_start_reads)
  show "prefix (handed_laps (fst (main w y r sp st hud rf))) [final]"
    using rest tr by (simp add: run reads race_start_reads)
  show "snd (main w y r sp st hud rf) = Inr () \<longrightarrow>
      handed_laps (fst (main w y r sp st hud rf)) = [final]"
    using rest tr by (simp add: run reads race_start_reads)
qed

text \<open>
  C5. When the telemetry of the primary session's fastest lap shows activation, it is
  the example lap, the printed line names that lap's driver, the qualifying lap is not
  adopted, and the run loads no session but the primary one.
\<close>

theorem track_layout_primary_active:
  assumes "race_run w y r st s name k rt"
    and "pick_fastest (laps s) = Inr (Some fl)" and "get_telemetry fl = Inr tel"
    and "lap_has_drs_activation tel = Inr True"
  shows "(Driver fl = Inr d \<longrightarrow>
       track_layout w y r s =
         ([Log (UsingRaceLap d), Log TrackLayoutPrepared], Inr (ExampleLap tel))) \<and>
    \<not> fallback_used (fst (main w y r sp st hud rf)) \<and>
    session_loads (fst (main w y r sp st hud rf)) = [(y, r, st)] \<and>
    prefix (handed_laps (fst (main w y r sp st hud rf))) [tel] \<and>
    (snd (main w y r sp st hud rf) = Inr () \<longrightarrow>
       handed_laps (fst (main w y r sp st hud rf)) = [tel])"
proof -
  note layout = track_layout_active [OF assms(2-4), of w y r]
  have 0: "Driver fl = Inr d \<longrightarrow>
       track_layout w y r s =
         ([Log (UsingRaceLap d), Log TrackLayoutPrepared], Inr (ExampleLap tel))"
    by (simp add: layout)
  have rest: "\<not> fallback_used (fst (main w y r sp st hud rf)) \<and>
    session_loads (fst (main w y r sp st hud rf)) = [(y, r, st)] \<and>
    prefix (handed_laps (fst (main w y r sp st hud rf))) [tel] \<and>
    (snd (main w y r sp st hud rf) = Inr () \<longrightarrow>
       handed_laps (fst (main w y r sp st hud rf)) = [tel])"
  proof (cases "Driver fl")
    case (Inl e)
    then have "track_layout w y r s = ([], Inl e)"
      by (simp add: layout)
    then have "main w y r sp st hud rf = (race_start y r st s name k @ [], Inl e)"
      by (rule main_race_raised [OF assms(1)])
    then show ?thesis
      by (simp add: race_start_reads)
  next
    case (Inr d')
    let ?tr = "[Log (UsingRaceLap d'), Log TrackLayoutPrepared]"
    have l: "track_layout w y r s = (?tr, Inr (ExampleLap tel))"
      by (simp add: layout Inr)
    have h: "handed_laps ?tr = []"
      by (simp add: reads)
    note run = main_race_reads [OF assms(1) l h, of sp hud rf]
    have 1: "\<not> fallback_used (fst (main w y r sp st hud rf))"
      by (simp add: run(1) reads)
    have 2: "session_loads (fst (main w y r sp st hud rf)) = [(y, r, st)]"
      by (simp add: run(2) reads)
    from 1 2 run(3) run(4) show ?thesis by blast
  qed
  from 0 rest show ?thesis by blast
qed

lemma track_layout_stages:
  "stages (fst (track_layout w y r s)) =
     (case snd (track_layout w y r s) of Inr (ExampleLap ex) \<Rightarrow> [LayoutResolved] | _ \<Rightarrow> []) \<and>
   handed_laps (fst (track_layout w y r s)) = []"
proof -
  have fb: "\<exists>tr final. quali_fallback w y r ex = (tr, Inr final) \<and> stages tr = [] \<and>
      handed_laps tr = []" for ex
    using quali_fallback_cases [of w y r ex] by blast
  show ?thesis
  proof (cases "pick_fastest (laps s)")
    case (Inl e)
    then show ?thesis
      by (simp add: track_layout_def run_simps reads)
  next
    case (Inr picked)
    show ?thesis
    proof (cases picked)
      case None
      with Inr show ?thesis
        by (simp add: track_layout_def run_simps reads)
    next
      case (Some fl)
      show ?thesis
      proof (cases "get_telemetry fl")
        case (Inl e)
        with Inr Some show ?thesis
          by (simp add: track_layout_def run_simps reads)
      next
        case tel: (Inr tel)
        show ?thesis
        proof (cases "lap_has_drs_activation tel")
          case (Inl e)
          with Inr Some tel show ?thesis
            by (simp add: track_layout_raises reads)
        next
          case act: (Inr active)
          show ?thesis
          proof (cases active)
            case True
            with Inr Some tel act show ?thesis
              by (simp add: track_layout_active reads split: sum.splits)
          next
            case False
            obtain tr final where "quali_fallback w y r tel = (tr, Inr final)"
              "stages tr = []" "handed_laps tr = []"
              using fb by blast
            with Inr Some tel act False show ?thesis
              by (simp add: track_layout_idle reads)
          qed
        qed
      qed
    qed
  qed
qed

lemma qualifying_replay_reads:
  "prefix (stages (fst (qualifying_replay w st rf s name))) [TelemetryAssembled] \<and>
   (snd (qualifying_replay w st rf s name) = Inr () \<longrightarrow>
      stages (fst (qualifying_replay w st rf s name)) = [TelemetryAssembled]) \<and>
   session_loads (fst (qualifying_replay w st rf s name)) = [] \<and>
   handed_laps (fst (qualifying_replay w st rf s name)) = []"
  by (auto simp: qualifying_replay_def call_def log_line_def log_step_def Let_def
        fst_and_then snd_and_then reads
      split: sum.splits)

lemma qualifying_replay_lines:
  "\<not> list_ex layout_line (fst (qualifying_replay w st rf s name))"
  by (auto simp: qualifying_replay_def call_def log_line_def log_step_def Let_def
        fst_and_then snd_and_then
      split: sum.splits)


text \<open>
  C2, as the launcher has it. In a Race or Sprint run the race dataset is assembled
  before the example lap is chosen: the stages come in the order SessionLoaded,
  TelemetryAssembled, LayoutResolved (a run that ends early shows an initial part of
  it, a run that reaches the replay window shows all of it). A Qualifying or Sprint
  Qualifying run has the stages SessionLoaded, TelemetryAssembled only: it prints no
  line of the choice of the example lap and loads no session but its own.
\<close>

theorem main_stage_order:
  "(st \<noteq> ''Q'' \<and> st \<noteq> ''SQ'' \<longrightarrow>
      prefix (stages (fst (main w y r sp st hud rf)))
        [SessionLoaded, TelemetryAssembled, LayoutResolved] \<and>
      (handed_laps (fst (main w y r sp st hud rf)) \<noteq> [] \<longrightarrow>
         stages (fst (main w y r sp st hud rf)) =
           [SessionLoaded, TelemetryAssembled, LayoutResolved])) \<and>
   (st = ''Q'' \<or> st = ''SQ'' \<longrightarrow>
      prefix (stages (fst (main w y r sp st hud rf))) [SessionLoaded, TelemetryAssembled] \<and>
      (snd (main w y r sp st hud rf) = Inr () \<longrightarrow>
         stages (fst (main w y r sp st hud rf)) = [SessionLoaded, TelemetryAssembled]) \<and>
      \<not> list_ex layout_line (fst (main w y r sp st hud rf)) \<and>
      prefix (session_loads (fst (main w y r sp st hud rf))) [(y, r, st)])"
proof -
  have race: "prefix (stages (fst (main w y r sp st hud rf)))
        [SessionLoaded, TelemetryAssembled, LayoutResolved] \<and>
      (handed_laps (fst (main w y r sp st hud rf)) \<noteq> [] \<longrightarrow>
         stages (fst (main w y r sp st hud rf)) =
           [SessionLoaded, TelemetryAssembled, LayoutResolved])"
    if "st \<noteq> ''Q''" "st \<noteq> ''SQ''"
    using that track_layout_stages arcade_replay_reads
    by (auto simp: main_def lift_def call_def ret_def log_line_def log_step_def
          fst_and_then snd_and_then reads event_item_def
        split: sum.splits option.splits layout.splits)
  have quali: "prefix (stages (fst (main w y r sp st hud rf))) [SessionLoaded, TelemetryAssembled] \<and>
      (snd (main w y r sp st hud rf) = Inr () \<longrightarrow>
         stages (fst (main w y r sp st hud rf)) = [SessionLoaded, TelemetryAssembled]) \<and>
      \<not> list_ex layout_line (fst (main w y r sp st hud rf)) \<and>
      prefix (session_loads (fst (main w y r sp st hud rf))) [(y, r, st)]"
    if "st = ''Q'' \<or> st = ''SQ''"
    using that qualifying_replay_reads qualifying_replay_lines
    by (auto simp: main_def lift_def call_def ret_def log_line_def log_step_def
          fst_and_then snd_and_then reads event_item_def
        split: sum.splits option.splits)
  from race quali show ?thesis by blast
qed

lemmas examples =
  source_def session_of_def spa_def spa_race_def lap_of_def active_race_def idle_race_def
  active_quali_def idle_quali_def empty_session_def malformed_quali_def
  race_active_tel_def race_idle_tel_def quali_active_tel_def quali_idle_tel_def
  distance_column_def column_of_def level_def bare_tel_def broken_tel_def mixed_tel_def
  driverless_quali_def

lemmas program =
  main_def track_layout_def quali_fallback_def quali_attempt_def arcade_replay_def
  qualifying_replay_def circuit_length_def lap_has_drs_activation_def getitem_def
  event_item_def event_get_def event_date_def Let_def

theorem main_stage_order_witness:
  "stages (fst (main (source idle_race (Inr (Some active_quali))) (Some 2025) (Some 13) 1 ''S''
      True None)) = [SessionLoaded, TelemetryAssembled, LayoutResolved] \<and>
   stages (fst (main (source active_quali (Inr (Some active_quali))) (Some 2025) (Some 13) 1
      ''Q'' True None)) = [SessionLoaded, TelemetryAssembled] \<and>
   session_loads (fst (main (source active_quali (Inr (Some active_quali))) (Some 2025)
      (Some 13) 1 ''Q'' True None)) = [(Some 2025, Some 13, ''Q'')]"
proof -
  let ?race = "main (source idle_race (Inr (Some active_quali))) (Some 2025) (Some 13) 1 ''S''
      True None"
  let ?quali = "main (source active_quali (Inr (Some active_quali))) (Some 2025) (Some 13) 1
      ''Q'' True None"
  have a: "handed_laps (fst ?race) \<noteq> []"
    by (simp add: program run_simps examples reads)
  have b: "snd ?quali = Inr ()"
    by (simp add: program run_simps examples)
  have c: "session_loads (fst ?quali) \<noteq> []"
    by (simp add: program run_simps examples reads)
  show ?thesis
    using a b c
      main_stage_order [of "''S''" "source idle_race (Inr (Some active_quali))"
        "Some 2025" "Some 13" 1 True None]
      main_stage_order [of "''Q''" "source active_quali (Inr (Some active_quali))"
        "Some 2025" "Some 13" 1 True None]
    by (auto simp: prefix_Cons)
qed

text \<open>
  C2 as stated fails: a race run that reaches the replay window has prepared its
  dataset before the track layout, not after.
\<close>

theorem race_run_assembles_before_layout:
  "stages (fst (main (source active_race (Inl (Error ''no data''))) (Some 2025) (Some 13) 1
      ''R'' True None)) = [SessionLoaded, TelemetryAssembled, LayoutResolved] \<and>
   stages (fst (main (source active_race (Inl (Error ''no data''))) (Some 2025) (Some 13) 1
      ''R'' True None)) \<noteq> [SessionLoaded, LayoutResolved, TelemetryAssembled] \<and>
   snd (main (source active_race (Inl (Error ''no data''))) (Some 2025) (Some 13) 1
      ''R'' True None) = Inr ()"
  by (simp add: program run_simps examples reads)


theorem track_layout_primary_active_witness:
  "track_layout (source active_race (Inl (Error ''no data''))) (Some 2025) (Some 13) active_race =
     ([Log (UsingRaceLap ''VER''), Log TrackLayoutPrepared], Inr (ExampleLap (Some race_active_tel))) \<and>
   session_loads (fst (main (source active_race (Inl (Error ''no data''))) (Some 2025) (Some 13) 1
     ''R'' True None)) = [(Some 2025, Some 13, ''R'')] \<and>
   handed_laps (fst (main (source active_race (Inl (Error ''no data''))) (Some 2025) (Some 13) 1
     ''R'' True None)) = [Some race_active_tel]"
proof -
  let ?w = "source active_race (Inl (Error ''no data''))"
  have a: "race_run ?w (Some 2025) (Some 13) ''R'' active_race ''Belgian Grand Prix'' 13 spa_race"
    by (simp add: race_run_def examples)
  have b: "pick_fastest (laps active_race) = Inr (Some (lap_of ''VER'' race_active_tel))"
    by (simp add: active_race_def session_of_def)
  have c: "get_telemetry (lap_of ''VER'' race_active_tel) = Inr (Some race_active_tel)"
    by (simp add: lap_of_def)
  have d: "lap_has_drs_activation (Some race_active_tel) = Inr True"
    by (simp add: lap_has_drs_activation_def getitem_def examples)
  have e: "snd (main ?w (Some 2025) (Some 13) 1 ''R'' True None) = Inr ()"
    by (simp add: program run_simps examples)
  have f: "Driver (lap_of ''VER'' race_active_tel) = Inr ''VER''"
    by (simp add: lap_of_def)
  show ?thesis
    using track_layout_primary_active [OF a b c d, of "''VER''" 1 True None] e f by simp
qed

lemma quali_fallback_adopted:
  assumes "load_session w y r ''Q'' = Inr (Some qs)" and "0 < len (laps qs)"
    and "pick_fastest (laps qs) = Inr (Some fq)" and "get_telemetry fq = Inr qtel"
    and "lap_has_drs_activation qtel = Inr True"
  shows "quali_fallback w y r ex =
    ([LoadSession y r ''Q'', Log LoadedQualifyingSession, AssignExampleLap qtel,
      case Driver fq of
        Inl e \<Rightarrow> Log (CouldNotLoadQualifying e)
      | Inr d \<Rightarrow> Log (UsingQualifyingLap d)],
     Inr qtel)"
  using assms
  by (simp add: quali_fallback_def quali_attempt_def run_simps split: sum.splits)

text \<open>
  C6. When the primary fastest lap shows no activation and the qualifying session of the
  same year and round loads, has laps and a fastest lap whose telemetry shows
  activation, that telemetry is the example lap and the fallback is used.
\<close>

theorem track_layout_qualifying_adopted:
  assumes "race_run w y r st s name k rt"
    and "pick_fastest (laps s) = Inr (Some fl)" and "get_telemetry fl = Inr tel"
    and "lap_has_drs_activation tel = Inr False"
    and "load_session w y r ''Q'' = Inr (Some qs)" and "0 < len (laps qs)"
    and "pick_fastest (laps qs) = Inr (Some fq)" and "get_telemetry fq = Inr qtel"
    and "lap_has_drs_activation qtel = Inr True"
  shows "snd (track_layout w y r s) = Inr (ExampleLap qtel) \<and>
    (Driver fq = Inr d \<longrightarrow>
       track_layout w y r s =
         ([Log RaceLapLacksDRS, LoadSession y r ''Q'', Log LoadedQualifyingSession,
           AssignExampleLap qtel, Log (UsingQualifyingLap d), Log TrackLayoutPrepared],
          Inr (ExampleLap qtel))) \<and>
    fallback_used (fst (track_layout w y r s)) \<and>
    fallback_used (fst (main w y r sp st hud rf)) \<and>
    prefix (handed_laps (fst (main w y r sp st hud rf))) [qtel] \<and>
    (snd (main w y r sp st hud rf) = Inr () \<longrightarrow>
       handed_laps (fst (main w y r sp st hud rf)) = [qtel])"
proof -
  let ?line = "case Driver fq of
      Inl e \<Rightarrow> Log (CouldNotLoadQualifying e) | Inr d \<Rightarrow> Log (UsingQualifyingLap d)"
  let ?fb = "[LoadSession y r ''Q'', Log LoadedQualifyingSession, AssignExampleLap qtel, ?line]"
  have fb: "quali_fallback w y r tel = (?fb, Inr qtel)"
    using assms(5-9) by (rule quali_fallback_adopted)
  have layout: "track_layout w y r s =
      (Log RaceLapLacksDRS # ?fb @ [Log TrackLayoutPrepared], Inr (ExampleLap qtel))"
    using assms(2-4) fb by (rule track_layout_idle)
  have used: "fallback_used (Log RaceLapLacksDRS # ?fb @ [Log TrackLayoutPrepared])"
    by (simp add: reads)
  have none: "handed_laps (Log RaceLapLacksDRS # ?fb @ [Log TrackLayoutPrepared]) = []"
    by (simp add: reads split: sum.splits)
  note run = main_race_reads [OF assms(1) layout none, of sp hud rf]
  have 0: "snd (track_layout w y r s) = Inr (ExampleLap qtel)"
    by (simp add: layout)
  have 1: "Driver fq = Inr d \<longrightarrow>
       track_layout w y r s =
         ([Log RaceLapLacksDRS, LoadSession y r ''Q'', Log LoadedQualifyingSession,
           AssignExampleLap qtel, Log (UsingQualifyingLap d), Log TrackLayoutPrepared],
          Inr (ExampleLap qtel))"
    by (simp add: layout)
  have 2: "fallback_used (fst (track_layout w y r s))"
    using used by (simp add: layout)
  have 3: "fallback_used (fst (main w y r sp st hud rf))"
    using used by (simp add: run(1))
  from 0 1 2 3 run(3) run(4) show ?thesis by blast
qed

theorem track_layout_qualifying_adopted_witness:
  "track_layout (source idle_race (Inr (Some active_quali))) (Some 2025) (Some 13) idle_race =
     ([Log RaceLapLacksDRS, LoadSession (Some 2025) (Some 13) ''Q'', Log LoadedQualifyingSession,
       AssignExampleLap (Some quali_active_tel), Log (UsingQualifyingLap ''PIA''),
       Log TrackLayoutPrepared],
      Inr (ExampleLap (Some quali_active_tel))) \<and>
   fallback_used (fst (main (source idle_race (Inr (Some active_quali))) (Some 2025) (Some 13) 1
     ''R'' True None)) \<and>
   handed_laps (fst (main (source idle_race (Inr (Some active_quali))) (Some 2025) (Some 13) 1
     ''R'' True None)) = [Some quali_active_tel]"
proof -
  let ?w = "source idle_race (Inr (Some active_quali))"
  have a: "race_run ?w (Some 2025) (Some 13) ''R'' idle_race ''Belgian Grand Prix'' 13 spa_race"
    by (simp add: race_run_def examples)
  have b: "pick_fastest (laps idle_race) = Inr (Some (lap_of ''NOR'' race_idle_tel))"
    by (simp add: idle_race_def session_of_def)
  have c: "get_telemetry (lap_of ''NOR'' race_idle_tel) = Inr (Some race_idle_tel)"
    by (simp add: lap_of_def)
  have d: "lap_has_drs_activation (Some race_idle_tel) = Inr False"
    by (simp add: lap_has_drs_activation_def getitem_def examples)
  have e: "load_session ?w (Some 2025) (Some 13) ''Q'' = Inr (Some active_quali)"
    by (simp add: source_def)
  have f: "0 < len (laps active_quali)"
    by (simp add: active_quali_def session_of_def)
  have g: "pick_fastest (laps active_quali) = Inr (Some (lap_of ''PIA'' quali_active_tel))"
    by (simp add: active_quali_def session_of_def)
  have h: "get_telemetry (lap_of ''PIA'' quali_active_tel) = Inr (Some quali_active_tel)"
    by (simp add: lap_of_def)
  have i: "lap_has_drs_activation (Some quali_active_tel) = Inr True"
    by (simp add: lap_has_drs_activation_def getitem_def examples)
  have j: "snd (main ?w (Some 2025) (Some 13) 1 ''R'' True None) = Inr ()"
    by (simp add: program run_simps examples)
  have k: "Driver (lap_of ''PIA'' quali_active_tel) = Inr ''PIA''"
    by (simp add: lap_of_def)
  show ?thesis
    using track_layout_qualifying_adopted [OF a b c d e f g h i, of "''PIA''" 1 True None] j k
    by simp
qed

text \<open>
  C7. When the primary fastest lap shows no activation and the qualifying session gives
  nothing better (its load raises, or it has no laps, or no fastest lap, or its fastest
  lap's telemetry shows no activation either), the example lap stays the telemetry of
  the primary fastest lap and the fallback is not used.
\<close>

theorem track_layout_fallback_no_improvement:
  assumes "race_run w y r st s name k rt"
    and "pick_fastest (laps s) = Inr (Some fl)" and "get_telemetry fl = Inr tel"
    and "lap_has_drs_activation tel = Inr False"
    and "(\<exists>e. load_session w y r ''Q'' = Inl e) \<or>
         (\<exists>qs. load_session w y r ''Q'' = Inr (Some qs) \<and>
            (len (laps qs) = 0 \<or> pick_fastest (laps qs) = Inr None \<or>
             (\<exists>fq qtel. pick_fastest (laps qs) = Inr (Some fq) \<and>
                get_telemetry fq = Inr qtel \<and> lap_has_drs_activation qtel = Inr False)))"
  shows "snd (track_layout w y r s) = Inr (ExampleLap tel) \<and>
    \<not> fallback_used (fst (track_layout w y r s)) \<and>
    \<not> fallback_used (fst (main w y r sp st hud rf)) \<and>
    prefix (handed_laps (fst (main w y r sp st hud rf))) [tel] \<and>
    (snd (main w y r sp st hud rf) = Inr () \<longrightarrow>
       handed_laps (fst (main w y r sp st hud rf)) = [tel])"
proof -
  obtain tr where fb: "quali_fallback w y r tel = (tr, Inr tel)" and tr: "\<not> fallback_used tr"
    and none: "handed_laps tr = []"
    using quali_fallback_cases [of w y r tel] assms(5) by auto
  have handed: "handed_laps (Log RaceLapLacksDRS # tr @ [Log TrackLayoutPrepared]) = []"
    using none by (simp add: reads)
  have layout: "track_layout w y r s =
      (Log RaceLapLacksDRS # tr @ [Log TrackLayoutPrepared], Inr (ExampleLap tel))"
    using assms(2-4) fb by (rule track_layout_idle)
  have unused: "\<not> fallback_used (Log RaceLapLacksDRS # tr @ [Log TrackLayoutPrepared])"
    using tr by (simp add: reads)
  note run = main_race_reads [OF assms(1) layout handed, of sp hud rf]
  have 1: "snd (track_layout w y r s) = Inr (ExampleLap tel)"
    by (simp add: layout)
  have 2: "\<not> fallback_used (fst (track_layout w y r s))"
    using unused by (simp add: layout)
  have 3: "\<not> fallback_used (fst (main w y r sp st hud rf))"
    using unused by (simp add: run(1))
  from 1 2 3 run(3) run(4) show ?thesis by blast
qed

theorem track_layout_fallback_no_improvement_witness:
  "snd (track_layout (source idle_race (Inr (Some idle_quali))) (Some 2025) (Some 13) idle_race)
     = Inr (ExampleLap (Some race_idle_tel)) \<and>
   \<not> fallback_used (fst (main (source idle_race (Inr (Some idle_quali))) (Some 2025) (Some 13) 1
     ''R'' True None)) \<and>
   handed_laps (fst (main (source idle_race (Inr (Some idle_quali))) (Some 2025) (Some 13) 1
     ''R'' True None)) = [Some race_idle_tel] \<and>
   handed_laps (fst (main (source idle_race (Inr (Some empty_session))) (Some 2025) (Some 13) 1
     ''S'' True None)) = [Some race_idle_tel] \<and>
   handed_laps (fst (main (source idle_race (Inl (Error ''no data''))) (Some 2025) (Some 13) 1
     ''R'' True None)) = [Some race_idle_tel]"
proof -
  let ?w1 = "source idle_race (Inr (Some idle_quali))"
  let ?w2 = "source idle_race (Inr (Some empty_session))"
  let ?w3 = "source idle_race (Inl (Error ''no data''))"
  have a: "race_run (source idle_race q) (Some 2025) (Some 13) st idle_race
      ''Belgian Grand Prix'' 13 spa_race" if "st = ''R'' \<or> st = ''S''" for q st
    using that by (auto simp add: race_run_def examples)
  have b: "pick_fastest (laps idle_race) = Inr (Some (lap_of ''NOR'' race_idle_tel))"
    by (simp add: idle_race_def session_of_def)
  have c: "get_telemetry (lap_of ''NOR'' race_idle_tel) = Inr (Some race_idle_tel)"
    by (simp add: lap_of_def)
  have d: "lap_has_drs_activation (Some race_idle_tel) = Inr False"
    by (simp add: lap_has_drs_activation_def getitem_def examples)
  have e1: "(\<exists>e. load_session ?w1 (Some 2025) (Some 13) ''Q'' = Inl e) \<or>
         (\<exists>qs. load_session ?w1 (Some 2025) (Some 13) ''Q'' = Inr (Some qs) \<and>
            (len (laps qs) = 0 \<or> pick_fastest (laps qs) = Inr None \<or>
             (\<exists>fq qtel. pick_fastest (laps qs) = Inr (Some fq) \<and>
                get_telemetry fq = Inr qtel \<and> lap_has_drs_activation qtel = Inr False)))"
    by (simp add: lap_has_drs_activation_def getitem_def examples)
  have e2: "(\<exists>e. load_session ?w2 (Some 2025) (Some 13) ''Q'' = Inl e) \<or>
         (\<exists>qs. load_session ?w2 (Some 2025) (Some 13) ''Q'' = Inr (Some qs) \<and>
            (len (laps qs) = 0 \<or> pick_fastest (laps qs) = Inr None \<or>
             (\<exists>fq qtel. pick_fastest (laps qs) = Inr (Some fq) \<and>
                get_telemetry fq = Inr qtel \<and> lap_has_drs_activation qtel = Inr False)))"
    by (simp add: examples)
  have e3: "(\<exists>e. load_session ?w3 (Some 2025) (Some 13) ''Q'' = Inl e) \<or>
         (\<exists>qs. load_session ?w3 (Some 2025) (Some 13) ''Q'' = Inr (Some qs) \<and>
            (len (laps qs) = 0 \<or> pick_fastest (laps qs) = Inr None \<or>
             (\<exists>fq qtel. pick_fastest (laps qs) = Inr (Some fq) \<and>
                get_telemetry fq = Inr qtel \<and> lap_has_drs_activation qtel = Inr False)))"
    by (simp add: examples)
  have f1: "snd (main ?w1 (Some 2025) (Some 13) 1 ''R'' True None) = Inr ()"
    by (simp add: program run_simps examples)
  have f2: "snd (main ?w2 (Some 2025) (Some 13) 1 ''S'' True None) = Inr ()"
    by (simp add: program run_simps examples)
  have f3: "snd (main ?w3 (Some 2025) (Some 13) 1 ''R'' True None) = Inr ()"
    by (simp add: program run_simps examples)
  show ?thesis
    using track_layout_fallback_no_improvement [OF a b c d e1, of "''R''" 1 True None]
      track_layout_fallback_no_improvement [OF a b c d e2, of "''S''" 1 True None]
      track_layout_fallback_no_improvement [OF a b c d e3, of "''R''" 1 True None]
      f1 f2 f3
    by simp
qed

text \<open>
  C8, as the launcher has it. The qualifying attempt never raises to its caller: an
  exception raised inside it is caught and one line reports it. When it is raised
  before the assignment (by the load of the qualifying session, by the pick of its
  fastest lap, by the read of that lap's telemetry or by the inspector), the example lap
  stays the race lap. When it is raised after the assignment, by the read of the
  qualifying lap's driver, the qualifying lap stays the example lap. Either way the run
  goes on as the replay stage does with the example lap.
\<close>

theorem fallback_exception_caught:
  "(\<exists>tr final. quali_fallback w y r ex = (tr, Inr final)) \<and>
   (snd (quali_attempt w y r) = Inl e \<longrightarrow>
      quali_fallback w y r ex =
        (fst (quali_attempt w y r) @ [Log (CouldNotLoadQualifying e)],
         Inr (example_lap_after ex (fst (quali_attempt w y r))))) \<and>
   (snd (quali_attempt w y r) = Inl e \<and> \<not> fallback_used (fst (quali_attempt w y r)) \<longrightarrow>
      quali_fallback w y r ex =
        (fst (quali_attempt w y r) @ [Log (CouldNotLoadQualifying e)], Inr ex)) \<and>
   (load_session w y r ''Q'' = Inl e \<longrightarrow>
      quali_fallback w y r ex =
        ([LoadSession y r ''Q'', Log (CouldNotLoadQualifying e)], Inr ex)) \<and>
   (load_session w y r ''Q'' = Inr (Some qs) \<and> 0 < len (laps qs) \<and>
    (pick_fastest (laps qs) = Inl e \<or>
     pick_fastest (laps qs) = Inr (Some fq) \<and>
     (get_telemetry fq = Inl e \<or>
      get_telemetry fq = Inr qtel \<and> lap_has_drs_activation qtel = Inl e)) \<longrightarrow>
      quali_fallback w y r ex =
        ([LoadSession y r ''Q'', Log LoadedQualifyingSession,
          Log (CouldNotLoadQualifying e)], Inr ex)) \<and>
   (load_session w y r ''Q'' = Inr (Some qs) \<and> 0 < len (laps qs) \<and>
    pick_fastest (laps qs) = Inr (Some fq) \<and> get_telemetry fq = Inr qtel \<and>
    lap_has_drs_activation qtel = Inr True \<and> Driver fq = Inl e \<longrightarrow>
      quali_fallback w y r ex =
        ([LoadSession y r ''Q'', Log LoadedQualifyingSession, AssignExampleLap qtel,
          Log (CouldNotLoadQualifying e)], Inr qtel)) \<and>
   (race_run w y r st s name k rt \<and> pick_fastest (laps s) = Inr (Some fl) \<and>
    get_telemetry fl = Inr tel \<and> lap_has_drs_activation tel = Inr False \<and>
    snd (quali_attempt w y r) = Inl e \<longrightarrow>
      main w y r sp st hud rf =
        (race_start y r st s name k @ Log RaceLapLacksDRS # fst (quali_attempt w y r) @
           [Log (CouldNotLoadQualifying e), Log TrackLayoutPrepared] @
           fst (arcade_replay w y r sp st hud rf s name rt
                  (example_lap_after tel (fst (quali_attempt w y r)))),
         snd (arcade_replay w y r sp st hud rf s name rt
                (example_lap_after tel (fst (quali_attempt w y r))))))"
proof -
  have caught: "quali_fallback w y r x =
      (fst (quali_attempt w y r) @ [Log (CouldNotLoadQualifying e)],
       Inr (example_lap_after x (fst (quali_attempt w y r))))"
    if "snd (quali_attempt w y r) = Inl e" for x
    using that by (simp add: quali_fallback_trace)
  have 1: "\<exists>tr final. quali_fallback w y r ex = (tr, Inr final)"
    by (simp add: quali_fallback_trace)
  have 3: "quali_fallback w y r ex =
        (fst (quali_attempt w y r) @ [Log (CouldNotLoadQualifying e)], Inr ex)"
    if "snd (quali_attempt w y r) = Inl e" "\<not> fallback_used (fst (quali_attempt w y r))"
    using that by (simp add: caught example_lap_after_unassigned)
  have 4: "quali_fallback w y r ex = ([LoadSession y r ''Q'', Log (CouldNotLoadQualifying e)], Inr ex)"
    if "load_session w y r ''Q'' = Inl e"
    using that by (simp add: quali_fallback_def quali_attempt_def run_simps)
  have 5: "quali_fallback w y r ex =
        ([LoadSession y r ''Q'', Log LoadedQualifyingSession,
          Log (CouldNotLoadQualifying e)], Inr ex)"
    if "load_session w y r ''Q'' = Inr (Some qs)" "0 < len (laps qs)"
      "pick_fastest (laps qs) = Inl e \<or>
       pick_fastest (laps qs) = Inr (Some fq) \<and>
       (get_telemetry fq = Inl e \<or>
        get_telemetry fq = Inr qtel \<and> lap_has_drs_activation qtel = Inl e)"
    using that by (auto simp: quali_fallback_def quali_attempt_def run_simps)
  have 6: "quali_fallback w y r ex =
        ([LoadSession y r ''Q'', Log LoadedQualifyingSession, AssignExampleLap qtel,
          Log (CouldNotLoadQualifying e)], Inr qtel)"
    if "load_session w y r ''Q'' = Inr (Some qs)" "0 < len (laps qs)"
      "pick_fastest (laps qs) = Inr (Some fq)" "get_telemetry fq = Inr qtel"
      "lap_has_drs_activation qtel = Inr True" "Driver fq = Inl e"
    using that by (simp add: quali_fallback_adopted)
  have 7: "main w y r sp st hud rf =
        (race_start y r st s name k @ Log RaceLapLacksDRS # fst (quali_attempt w y r) @
           [Log (CouldNotLoadQualifying e), Log TrackLayoutPrepared] @
           fst (arcade_replay w y r sp st hud rf s name rt
                  (example_lap_after tel (fst (quali_attempt w y r)))),
         snd (arcade_replay w y r sp st hud rf s name rt
                (example_lap_after tel (fst (quali_attempt w y r)))))"
    if run: "race_run w y r st s name k rt" and lap: "pick_fastest (laps s) = Inr (Some fl)"
      "get_telemetry fl = Inr tel" "lap_has_drs_activation tel = Inr False"
      and exn: "snd (quali_attempt w y r) = Inl e"
  proof -
    have "track_layout w y r s =
        (Log RaceLapLacksDRS # (fst (quali_attempt w y r) @ [Log (CouldNotLoadQualifying e)]) @
           [Log TrackLayoutPrepared],
         Inr (ExampleLap (example_lap_after tel (fst (quali_attempt w y r)))))"
      using lap caught [OF exn] by (rule track_layout_idle)
    from main_race_layout [OF run this] show ?thesis by simp
  qed
  from 1 caught [of ex] 3 4 5 6 7 show ?thesis by blast
qed

theorem fallback_exception_caught_witness:
  "main (source idle_race (Inl (Error ''timeout''))) (Some 2025) (Some 13) 1 ''R'' True None =
     (race_start (Some 2025) (Some 13) ''R'' idle_race ''Belgian Grand Prix'' 13 @
      [Log RaceLapLacksDRS, LoadSession (Some 2025) (Some 13) ''Q'',
       Log (CouldNotLoadQualifying (Error ''timeout'')), Log TrackLayoutPrepared] @
      fst (arcade_replay (source idle_race (Inl (Error ''timeout''))) (Some 2025) (Some 13) 1
        ''R'' True None idle_race ''Belgian Grand Prix'' spa_race (Some race_idle_tel)),
      Inr ()) \<and>
   quali_fallback (source idle_race (Inr (Some malformed_quali))) (Some 2025) (Some 13)
      (Some race_idle_tel) =
     ([LoadSession (Some 2025) (Some 13) ''Q'', Log LoadedQualifyingSession,
       Log (CouldNotLoadQualifying (Error ''malformed''))], Inr (Some race_idle_tel))"
proof -
  let ?w = "source idle_race (Inl (Error ''timeout''))"
  let ?v = "source idle_race (Inr (Some malformed_quali))"
  have a: "race_run ?w (Some 2025) (Some 13) ''R'' idle_race ''Belgian Grand Prix'' 13 spa_race"
    by (simp add: race_run_def examples)
  have b: "pick_fastest (laps idle_race) = Inr (Some (lap_of ''NOR'' race_idle_tel))"
    by (simp add: idle_race_def session_of_def)
  have c: "get_telemetry (lap_of ''NOR'' race_idle_tel) = Inr (Some race_idle_tel)"
    by (simp add: lap_of_def)
  have d: "lap_has_drs_activation (Some race_idle_tel) = Inr False"
    by (simp add: lap_has_drs_activation_def getitem_def examples)
  have e: "quali_attempt ?w (Some 2025) (Some 13) =
      ([LoadSession (Some 2025) (Some 13) ''Q''], Inl (Error ''timeout''))"
    by (simp add: quali_attempt_def run_simps source_def)
  have f: "snd (arcade_replay ?w (Some 2025) (Some 13) 1 ''R'' True None idle_race
      ''Belgian Grand Prix'' spa_race (Some race_idle_tel)) = Inr ()"
    by (simp add: program run_simps examples)
  have g: "load_session ?v (Some 2025) (Some 13) ''Q'' = Inr (Some malformed_quali)"
    "0 < len (laps malformed_quali)"
    "pick_fastest (laps malformed_quali) = Inl (Error ''malformed'')"
    by (simp_all add: source_def malformed_quali_def)
  show ?thesis
    using fallback_exception_caught [of ?w "Some 2025" "Some 13" "Some race_idle_tel"
        "Error ''timeout''" undefined undefined undefined "''R''" idle_race
        "''Belgian Grand Prix''" 13 spa_race
        "lap_of ''NOR'' race_idle_tel" "Some race_idle_tel" 1 True None]
      fallback_exception_caught [of ?v "Some 2025" "Some 13" "Some race_idle_tel"
        "Error ''malformed''" malformed_quali undefined undefined "''R''" idle_race
        "''Belgian Grand Prix''" 13 spa_race
        "lap_of ''NOR'' race_idle_tel" "Some race_idle_tel" 1 True None]
      a b c d e f g
    by simp
qed

text \<open>
  C8 as stated fails: when the qualifying fastest lap shows activation but its record
  has no driver column, the read of the driver raises after the assignment; the
  exception is caught and reported, and the example lap handed to the replay is the
  qualifying lap, not the race lap.
\<close>

theorem exception_after_adoption_keeps_qualifying_lap:
  "quali_attempt (source idle_race (Inr (Some driverless_quali))) (Some 2025) (Some 13) =
     ([LoadSession (Some 2025) (Some 13) ''Q'', Log LoadedQualifyingSession,
       AssignExampleLap (Some quali_active_tel)], Inl (KeyError ''Driver'')) \<and>
   quali_fallback (source idle_race (Inr (Some driverless_quali))) (Some 2025) (Some 13)
      (Some race_idle_tel) =
     ([LoadSession (Some 2025) (Some 13) ''Q'', Log LoadedQualifyingSession,
       AssignExampleLap (Some quali_active_tel),
       Log (CouldNotLoadQualifying (KeyError ''Driver''))], Inr (Some quali_active_tel)) \<and>
   handed_laps (fst (main (source idle_race (Inr (Some driverless_quali))) (Some 2025)
     (Some 13) 1 ''R'' True None)) = [Some quali_active_tel] \<and>
   quali_active_tel ''DRS'' \<noteq> race_idle_tel ''DRS''"
  by (simp add: program run_simps examples reads)








lemma quali_fallback_adopts_active:
  assumes "snd (quali_fallback w y r ex) = Inr final" and "final \<noteq> ex"
  shows "lap_has_drs_activation final = Inr True"
  using quali_fallback_cases [of w y r ex] assms by auto

lemma track_layout_adopts_active:
  assumes "pick_fastest (laps s) = Inr (Some fl)" and "get_telemetry fl = Inr tel"
    and "snd (track_layout w y r s) = Inr (ExampleLap final)" and "final \<noteq> tel"
  shows "lap_has_drs_activation final = Inr True"
proof (cases "lap_has_drs_activation tel")
  case (Inl e)
  with assms(1,2) have "track_layout w y r s = ([], Inl e)"
    by (simp add: track_layout_raises)
  with assms(3) show ?thesis by simp
next
  case (Inr b)
  show ?thesis
  proof (cases b)
    case True
    with assms(1,2) Inr have "track_layout w y r s =
        (case Driver fl of
           Inl e \<Rightarrow> ([], Inl e)
         | Inr d \<Rightarrow> ([Log (UsingRaceLap d), Log TrackLayoutPrepared], Inr (ExampleLap tel)))"
      by (simp add: track_layout_active)
    with assms(3,4) show ?thesis
      by (simp split: sum.splits)
  next
    case False
    obtain tr f where fb: "quali_fallback w y r tel = (tr, Inr f)"
      using quali_fallback_cases [of w y r tel] by blast
    from assms(1,2) Inr False fb have "track_layout w y r s =
        (Log RaceLapLacksDRS # tr @ [Log TrackLayoutPrepared], Inr (ExampleLap f))"
      by (simp add: track_layout_idle)
    with assms(3) have "f = final" by simp
    with fb assms(4) show ?thesis
      using quali_fallback_adopts_active [of w y r tel final] by simp
  qed
qed

lemma main_race_handed:
  assumes "race_run w y r st s name k rt"
    and "handed \<in> set (handed_laps (fst (main w y r sp st hud rf)))"
  shows "snd (track_layout w y r s) = Inr (ExampleLap handed)"
proof (cases "track_layout w y r s")
  case (Pair tr out)
  have none: "handed_laps tr = []"
    using track_layout_stages [of w y r s] by (simp add: Pair)
  show ?thesis
  proof (cases out)
    case (Inl e)
    with Pair have "main w y r sp st hud rf = (race_start y r st s name k @ tr, Inl e)"
      using main_race_raised [OF assms(1)] by simp
    with assms(2) none show ?thesis
      by (simp add: reads race_start_reads)
  next
    case (Inr chosen)
    show ?thesis
    proof (cases chosen)
      case Returned
      with Pair Inr have "main w y r sp st hud rf = (race_start y r st s name k @ tr, Inr ())"
        using main_race_returned [OF assms(1)] by simp
      with assms(2) none show ?thesis
        by (simp add: reads race_start_reads)
    next
      case (ExampleLap f)
      with Pair Inr have layout: "track_layout w y r s = (tr, Inr (ExampleLap f))"
        by simp
      have "prefix (handed_laps (fst (main w y r sp st hud rf))) [f]"
        using assms(1) layout none by (rule main_race_reads(3))
      then have "set (handed_laps (fst (main w y r sp st hud rf))) \<subseteq> set [f]"
        by (rule set_mono_prefix)
      with assms(2) have "handed = f"
        by auto
      with layout show ?thesis by simp
    qed
  qed
qed

text \<open>
  C10. The qualifying telemetry replaces the example lap only when the inspector accepts
  it: an example lap other than the telemetry of the primary fastest lap shows
  activation, after the qualifying attempt, after the choice of the example lap, and
  in what a Race or Sprint run hands to the replay window.
\<close>

theorem adopted_layout_is_active:
  "(snd (quali_fallback w y r ex) = Inr final \<and> final \<noteq> ex \<longrightarrow>
      lap_has_drs_activation final = Inr True) \<and>
   (pick_fastest (laps s) = Inr (Some fl) \<and> get_telemetry fl = Inr tel \<and>
    snd (track_layout w y r s) = Inr (ExampleLap final) \<and> final \<noteq> tel \<longrightarrow>
      lap_has_drs_activation final = Inr True) \<and>
   (race_run w y r st s name k rt \<and> pick_fastest (laps s) = Inr (Some fl) \<and>
    get_telemetry fl = Inr tel \<longrightarrow>
      (\<forall>handed \<in> set (handed_laps (fst (main w y r sp st hud rf))).
         handed \<noteq> tel \<longrightarrow> lap_has_drs_activation handed = Inr True))"
proof -
  have 3: "lap_has_drs_activation handed = Inr True"
    if run: "race_run w y r st s name k rt" and lap: "pick_fastest (laps s) = Inr (Some fl)"
      "get_telemetry fl = Inr tel"
      and h: "handed \<in> set (handed_laps (fst (main w y r sp st hud rf)))" "handed \<noteq> tel"
    for handed
  proof -
    have "snd (track_layout w y r s) = Inr (ExampleLap handed)"
      using run h(1) by (rule main_race_handed)
    with lap h(2) show ?thesis
      using track_layout_adopts_active [of s fl tel w y r handed] by simp
  qed
  from quali_fallback_adopts_active [of w y r ex final]
    track_layout_adopts_active [of s fl tel w y r final] 3
  show ?thesis by blast
qed

theorem adopted_layout_is_active_witness:
  "handed_laps (fst (main (source idle_race (Inr (Some active_quali))) (Some 2025) (Some 13) 1
     ''R'' True None)) = [Some quali_active_tel] \<and>
   Some quali_active_tel \<noteq> Some race_idle_tel \<and>
   lap_has_drs_activation (Some quali_active_tel) = Inr True"
proof -
  let ?w = "source idle_race (Inr (Some active_quali))"
  have a: "race_run ?w (Some 2025) (Some 13) ''R'' idle_race ''Belgian Grand Prix'' 13 spa_race"
    by (simp add: race_run_def examples)
  have b: "pick_fastest (laps idle_race) = Inr (Some (lap_of ''NOR'' race_idle_tel))"
    by (simp add: idle_race_def session_of_def)
  have c: "get_telemetry (lap_of ''NOR'' race_idle_tel) = Inr (Some race_idle_tel)"
    by (simp add: lap_of_def)
  have d: "handed_laps (fst (main ?w (Some 2025) (Some 13) 1 ''R'' True None)) =
      [Some quali_active_tel]"
    by (simp add: program run_simps examples reads)
  have "quali_active_tel ''DRS'' \<noteq> race_idle_tel ''DRS''"
    by (simp add: examples)
  then have e: "Some quali_active_tel \<noteq> Some race_idle_tel"
    by auto
  show ?thesis
    using adopted_layout_is_active [of ?w "Some 2025" "Some 13" "Some race_idle_tel"
        "Some quali_active_tel" idle_race "lap_of ''NOR'' race_idle_tel" "Some race_idle_tel"
        "''R''" "''Belgian Grand Prix''" 13 spa_race 1 True None]
      a b c d e
    by simp
qed

end
